theory Spec2Isabelle
  imports Main
begin

section \<open>JavaScript values\<close>

text \<open>
  The query generator is dynamically typed: a condition, an attribute or an order item
  may be a string, a number, an array, a plain object or one of the expression objects
  of \<^verbatim>\<open>Utils\<close> (\<^verbatim>\<open>Literal\<close>, \<^verbatim>\<open>Fn\<close>, \<^verbatim>\<open>Cast\<close>,
  \<^verbatim>\<open>Col\<close>, \<^verbatim>\<open>Where\<close>). One datatype holds them all.

  \<^item> Numbers are integers (\<open>JNum\<close>); fractions, NaN and the infinities are not modelled.
  \<^item> A plain object is an association list in the enumeration order of its own keys.
    Keys are distinct in a real object; integer-like keys, which JavaScript enumerates
    first, and names inherited from \<^verbatim>\<open>Object.prototype\<close> are not treated specially.
  \<^item> A model class (a constructor function whose prototype is a \<^verbatim>\<open>Model\<close>) is
    \<open>JModel name tableName\<close>; two model classes are the same class when their names agree.
  \<^item> An attribute object of a model (\<^verbatim>\<open>_modelAttribute\<close>) is
    \<open>ModelAttribute modelName field fieldName\<close>.
  \<^item> Buffers are not modelled.
  \<^item> Values are trees: the same mutable object is not reachable by two paths.
\<close>

datatype jsval =
    JUndefined
  | JNull
  | JBool bool
  | JNum int
  | JStr string
  | JDate string
  | JArr "jsval list"
  | JObj "(string \<times> jsval) list"
  | Literal string
  | Fn string "jsval list"
  | Cast jsval string
  | Col jsval
  | Where jsval string jsval
  | ModelAttribute string "string option" string
  | JModel string string

text \<open>
  What the source raises. \<open>OutOfFuel\<close> is not an error of the source: the recursive
  functions of the generator carry a recursion budget, and \<open>OutOfFuel\<close> says that the
  budget was too small for the input.
\<close>

datatype error =
    MethodUndefined string
  | RawWhereRemoved
  | TypeError
  | ValidationError
  | InvalidOrderDirection string
  | NotValidAssociation string
  | UnknownOrderStructure
  | ColOutsideOrderGroup
  | MissingAliasForComputedAttribute
  | OutOfFuel

type_synonym 'a result = "error + 'a"

definition bind_result :: "'a result \<Rightarrow> ('a \<Rightarrow> 'b result) \<Rightarrow> 'b result" where
  "bind_result r f = (case r of Inl e \<Rightarrow> Inl e | Inr x \<Rightarrow> f x)"

text \<open>\<open>mapR f xs\<close> runs \<open>f\<close> over \<open>xs\<close> from the left and stops at the first error.\<close>

fun mapR :: "('a \<Rightarrow> 'b result) \<Rightarrow> 'a list \<Rightarrow> 'b list result" where
  "mapR f [] = Inr []"
| "mapR f (x # xs) =
     (case f x of
        Inl e \<Rightarrow> Inl e
      | Inr y \<Rightarrow> (case mapR f xs of Inl e \<Rightarrow> Inl e | Inr ys \<Rightarrow> Inr (y # ys)))"

subsection \<open>Truthiness, type tests, property access\<close>

fun truthy :: "jsval \<Rightarrow> bool" where
  "truthy JUndefined = False"
| "truthy JNull = False"
| "truthy (JBool b) = b"
| "truthy (JNum n) = (n \<noteq> 0)"
| "truthy (JStr s) = (s \<noteq> [])"
| "truthy _ = True"

fun isSequelizeMethod :: "jsval \<Rightarrow> bool" where
  "isSequelizeMethod (Literal _) = True"
| "isSequelizeMethod (Fn _ _) = True"
| "isSequelizeMethod (Cast _ _) = True"
| "isSequelizeMethod (Col _) = True"
| "isSequelizeMethod (Where _ _ _) = True"
| "isSequelizeMethod _ = False"

fun isPlainObject :: "jsval \<Rightarrow> bool" where
  "isPlainObject (JObj _) = True"
| "isPlainObject _ = False"

fun isArray :: "jsval \<Rightarrow> bool" where
  "isArray (JArr _) = True"
| "isArray _ = False"

fun isString :: "jsval \<Rightarrow> bool" where
  "isString (JStr _) = True"
| "isString _ = False"

fun isLiteral :: "jsval \<Rightarrow> bool" where
  "isLiteral (Literal _) = True"
| "isLiteral _ = False"

fun isModel :: "jsval \<Rightarrow> bool" where
  "isModel (JModel _ _) = True"
| "isModel _ = False"

text \<open>\<^verbatim>\<open>_.isObject\<close>: anything that is not a primitive.\<close>

fun isObject :: "jsval \<Rightarrow> bool" where
  "isObject JUndefined = False"
| "isObject JNull = False"
| "isObject (JBool _) = False"
| "isObject (JNum _) = False"
| "isObject (JStr _) = False"
| "isObject _ = True"

text \<open>
  \<open>objGet kvs k\<close> is \<^verbatim>\<open>obj[k]\<close> on a plain object, \<open>objSet\<close> is the assignment
  \<^verbatim>\<open>obj[k] = v\<close> (an existing key keeps its place, a new key goes last) and
  \<open>objDelete\<close> is \<^verbatim>\<open>delete obj[k]\<close>.
\<close>

fun objGet :: "(string \<times> jsval) list \<Rightarrow> string \<Rightarrow> jsval" where
  "objGet [] k = JUndefined"
| "objGet ((k', v) # kvs) k = (if k' = k then v else objGet kvs k)"

fun objSet :: "(string \<times> jsval) list \<Rightarrow> string \<Rightarrow> jsval \<Rightarrow> (string \<times> jsval) list" where
  "objSet [] k v = [(k, v)]"
| "objSet ((k', v') # kvs) k v = (if k' = k then (k, v) # kvs else (k', v') # objSet kvs k v)"

definition objDelete :: "(string \<times> jsval) list \<Rightarrow> string \<Rightarrow> (string \<times> jsval) list" where
  "objDelete kvs k = filter (\<lambda>kv. fst kv \<noteq> k) kvs"

text \<open>
  \<open>getProp v k\<close> is \<^verbatim>\<open>v.k\<close> for an operator name \<open>k\<close> such as \<^verbatim>\<open>$or\<close>, read from a
  value that is not \<^verbatim>\<open>null\<close> or \<^verbatim>\<open>undefined\<close>: only a plain object can own such a
  property.
\<close>

fun getProp :: "jsval \<Rightarrow> string \<Rightarrow> jsval" where
  "getProp (JObj kvs) k = objGet kvs k"
| "getProp _ k = JUndefined"

text \<open>\<^verbatim>\<open>a || b\<close> on values.\<close>

definition jsOr :: "jsval \<Rightarrow> jsval \<Rightarrow> jsval" where
  "jsOr a b = (if truthy a then a else b)"

subsection \<open>Strings\<close>

fun showNat :: "nat \<Rightarrow> string" where
  "showNat n =
     (if n < 10 then [char_of (48 + n)] else showNat (n div 10) @ [char_of (48 + n mod 10)])"

definition showInt :: "int \<Rightarrow> string" where
  "showInt i = (if i < 0 then CHR ''-'' # showNat (nat (- i)) else showNat (nat i))"

text \<open>\<^verbatim>\<open>xs.join(sep)\<close> on an array of strings.\<close>

fun join :: "string \<Rightarrow> string list \<Rightarrow> string" where
  "join sep [] = []"
| "join sep [x] = x"
| "join sep (x # y # ys) = x @ sep @ join sep (y # ys)"

text \<open>
  \<open>jsString\<close> is the string conversion that \<^verbatim>\<open>+\<close> and \<^verbatim>\<open>join\<close> apply to a value.
  An object that is not an array prints as \<^verbatim>\<open>[object Object]\<close>; the expression
  classes of \<^verbatim>\<open>Utils\<close> are taken not to override \<^verbatim>\<open>toString\<close>.
\<close>

fun jsString :: "jsval \<Rightarrow> string"
  and jsJoinItem :: "jsval \<Rightarrow> string" where
  "jsString JUndefined = ''undefined''"
| "jsString JNull = ''null''"
| "jsString (JBool b) = (if b then ''true'' else ''false'')"
| "jsString (JNum n) = showInt n"
| "jsString (JStr s) = s"
| "jsString (JDate s) = s"
| "jsString (JArr xs) = join '','' (map jsJoinItem xs)"
| "jsString (JObj kvs) = ''[object Object]''"
| "jsString (Literal s) = ''[object Object]''"
| "jsString (Fn f args) = ''[object Object]''"
| "jsString (Cast v t) = ''[object Object]''"
| "jsString (Col c) = ''[object Object]''"
| "jsString (Where a c l) = ''[object Object]''"
| "jsString (ModelAttribute m f n) = ''[object Object]''"
| "jsString (JModel n t) = ''[object Object]''"
| "jsJoinItem JUndefined = []"
| "jsJoinItem JNull = []"
| "jsJoinItem v = jsString v"

text \<open>\<^verbatim>\<open>xs.join(sep)\<close> on an array of values: a hole prints as the empty string.\<close>

definition jsJoin :: "string \<Rightarrow> jsval list \<Rightarrow> string" where
  "jsJoin sep xs = join sep (map jsJoinItem xs)"

text \<open>\<^verbatim>\<open>s.split(sep)\<close> for a one-character separator.\<close>

fun splitOn :: "char \<Rightarrow> string \<Rightarrow> string list" where
  "splitOn c [] = [[]]"
| "splitOn c (x # xs) =
     (case splitOn c xs of
        [] \<Rightarrow> [[x]]
      | w # ws \<Rightarrow> (if x = c then [] # w # ws else (x # w) # ws))"

text \<open>\<^verbatim>\<open>s.indexOf(t) !== -1\<close>.\<close>

fun contains :: "string \<Rightarrow> string \<Rightarrow> bool" where
  "contains [] t = (t = [])"
| "contains (x # xs) t = (take (length t) (x # xs) = t \<or> contains xs t)"

text \<open>\<^verbatim>\<open>s.toUpperCase()\<close> on the ASCII letters; other bytes are kept.\<close>

definition toUpperChar :: "char \<Rightarrow> char" where
  "toUpperChar c =
     (let n = of_char c :: nat in if 97 \<le> n \<and> n \<le> 122 then char_of (n - 32) else c)"

definition toUpperCase :: "string \<Rightarrow> string" where
  "toUpperCase s = map toUpperChar s"

text \<open>\<^verbatim>\<open>s.replace(/;$/, '')\<close>: a final semicolon is dropped.\<close>

definition stripSemicolon :: "string \<Rightarrow> string" where
  "stripSemicolon s = (if s \<noteq> [] \<and> last s = CHR '';'' then butlast s else s)"

text \<open>\<^verbatim>\<open>s.indexOf(t)\<close>: the first position of \<open>t\<close> in \<open>s\<close>, or \<open>-1\<close>.\<close>

fun indexOf :: "string \<Rightarrow> string \<Rightarrow> int" where
  "indexOf [] t = (if t = [] then 0 else - 1)"
| "indexOf (x # xs) t =
     (if take (length t) (x # xs) = t then 0
      else (let i = indexOf xs t in if i < 0 then - 1 else i + 1))"

text \<open>\<^verbatim>\<open>s.split('::')\<close>, of which the source reads the first two parts only.\<close>

fun splitCast :: "string \<Rightarrow> string list" where
  "splitCast [] = [[]]"
| "splitCast [x] = [[x]]"
| "splitCast (x # y # ys) =
     (if x = CHR '':'' \<and> y = CHR '':'' then [] # splitCast ys
      else (case splitCast (y # ys) of
              [] \<Rightarrow> [[x]]
            | w # ws \<Rightarrow> (x # w) # ws))"

section \<open>Model metadata and the dialect\<close>

text \<open>
  The data types of \<^verbatim>\<open>lib/data-types\<close> are not part of the sources at hand. The
  generator only asks a type which class it is an instance of and calls its
  \<^verbatim>\<open>validate\<close>, \<^verbatim>\<open>stringify\<close> and \<^verbatim>\<open>toSql\<close> capabilities, so a type is
  a record of these. \<open>dt_validate\<close> answers \<open>False\<close> where the type's validator raises.
\<close>

datatype type_kind = JSON | ARRAY | VIRTUAL | OTHER

record data_type =
  dt_kind :: type_kind
  dt_validate :: "(jsval \<Rightarrow> bool) option"
  dt_stringify :: "(jsval \<Rightarrow> jsval) option"
  dt_escape_false :: bool
  dt_toSql :: string

text \<open>An entry of \<^verbatim>\<open>rawAttributes\<close>: the column name, the type, the autoIncrement flag.\<close>

record attribute =
  at_field :: "string option"
  at_type :: "data_type option"
  at_autoIncrement :: jsval

record model =
  md_name :: string
  md_tableName :: string
  md_getTableName :: jsval
  md_rawAttributes :: "(string \<times> attribute) list"
  md_fieldRawAttributesMap :: "(string \<times> attribute) list"
  md_primaryKeyAttribute :: string
  md_primaryKeyAttributes :: "string list"
  md_primaryKeys :: "string list"
  md_primaryKeyField :: string

definition modelRef :: "model option \<Rightarrow> jsval" where
  "modelRef m = (case m of None \<Rightarrow> JUndefined | Some x \<Rightarrow> JModel (md_name x) (md_tableName x))"

text \<open>What \<^verbatim>\<open>quote\<close> reads of an association: its alias and its through model.\<close>

record association_ref =
  as_as :: string
  as_through :: "string option"

text \<open>The flags of \<^verbatim>\<open>this._dialect.supports\<close> that the modelled builders consult.\<close>

record supports =
  sup_schemas :: bool
  sup_returnValues :: "(bool \<times> bool) option"
  sup_tmpTableTrigger :: bool
  sup_autoIncrement_defaultValue :: bool
  sup_autoIncrement_identityInsert :: bool
  sup_autoIncrement_update :: bool
  sup_DEFAULT :: bool
  sup_DEFAULT_VALUES :: bool
  sup_VALUES_empty :: bool
  sup_IGNORE :: string
  sup_ON_DUPLICATE_KEY :: bool
  sup_EXCEPTION :: bool
  sup_LIMIT_ON_UPDATE :: bool
  sup_UNION_ALL :: bool
  sup_lock :: bool
  sup_lockKey :: bool
  sup_lockOf :: bool
  sup_forShare :: string

text \<open>
  The generator object \<^verbatim>\<open>this\<close>, as far as it is given from outside the sources at
  hand: \<^verbatim>\<open>quoteIdentifier\<close> is left to the dialect by the abstract generator;
  \<^verbatim>\<open>SqlString.escape\<close> (with the time zone and dialect of the generator),
  \<^verbatim>\<open>Utils.format\<close>, \<^verbatim>\<open>Utils.isColString\<close>, \<^verbatim>\<open>Utils.canTreatArrayAsAnd\<close> and
  \<^verbatim>\<open>Utils.removeNullValuesFromHash\<close> (with \<^verbatim>\<open>this.options.omitNull\<close>) live in modules
  that are not among them; \<^verbatim>\<open>getAssociation\<close> belongs to the model layer. They are
  parameters, and taken to leave their arguments untouched. \<open>quoteIdentifier\<close> receives
  its argument converted to a string.
\<close>

record generator =
  quoteIdentifier :: "string \<Rightarrow> bool \<Rightarrow> string"
  sqlEscape :: "jsval \<Rightarrow> string"
  format :: "jsval list \<Rightarrow> string"
  isColString :: "jsval \<Rightarrow> bool"
  canTreatArrayAsAnd :: "jsval list \<Rightarrow> bool"
  removeNullValuesFromHash :: "(string \<times> jsval) list \<Rightarrow> (string \<times> jsval) list"
  getAssociation :: "string \<Rightarrow> jsval \<Rightarrow> jsval \<Rightarrow> association_ref option"
  typeValidation :: bool
  dialect_supports :: supports

text \<open>The \<^verbatim>\<open>options\<close> of the WHERE compiler; \<open>wo_json\<close> is \<^verbatim>\<open>options.json !== false\<close>.\<close>

record where_options =
  wo_model :: "model option"
  wo_prefix :: jsval
  wo_field :: "attribute option"
  wo_type :: "data_type option"
  wo_json :: bool

definition no_options :: where_options where
  "no_options = \<lparr>wo_model = None, wo_prefix = JUndefined, wo_field = None, wo_type = None,
     wo_json = True\<rparr>"

text \<open>
  The methods of the generator that call one another. A method of the source becomes a
  definition that takes the method table \<open>this\<close> for its calls of \<^verbatim>\<open>this.method(...)\<close>;
  \<open>queryGenerator\<close> at the end of the next section ties the knot with a recursion budget.

  \<^verbatim>\<open>whereItemsQuery\<close> and \<^verbatim>\<open>whereItemQuery\<close> normalise the condition they are given
  in place. They therefore return, next to their result, the condition as the caller finds
  it after the call.
\<close>

record methods =
  escape_m :: "jsval \<Rightarrow> attribute option \<Rightarrow> bool \<Rightarrow> jsval result"
  handleSequelizeMethod_m :: "jsval \<Rightarrow> jsval \<Rightarrow> model option \<Rightarrow> jsval \<Rightarrow> jsval result"
  getWhereConditions_m :: "jsval \<Rightarrow> jsval \<Rightarrow> model option \<Rightarrow> jsval \<Rightarrow> jsval result"
  whereItemsQuery_m :: "jsval \<Rightarrow> where_options option \<Rightarrow> string option \<Rightarrow> (jsval \<times> string) result"
  whereItemQuery_m :: "jsval \<Rightarrow> jsval \<Rightarrow> where_options option \<Rightarrow> (jsval \<times> jsval) result"
  quote_m :: "jsval \<Rightarrow> jsval \<Rightarrow> bool \<Rightarrow> jsval result"

section \<open>Identifier quoting\<close>

definition quoteIdentifiers :: "generator \<Rightarrow> string \<Rightarrow> bool \<Rightarrow> string" where
  "quoteIdentifiers g identifiers force =
     (if contains identifiers ''.'' then
        (let parts = splitOn CHR ''.'' identifiers in
           quoteIdentifier g (join ''.'' (butlast parts)) False @ ''.'' @
           quoteIdentifier g (last parts) False)
      else quoteIdentifier g identifiers force)"

definition quoteTable :: "generator \<Rightarrow> jsval \<Rightarrow> jsval \<Rightarrow> string" where
  "quoteTable g param as0 =
     (let as = (if as0 = JBool True
                then jsOr (getProp param ''as'') (jsOr (getProp param ''name'') param)
                else as0);
          table =
            (if isObject param then
               (if sup_schemas (dialect_supports g) then
                  (if truthy (getProp param ''schema'')
                   then quoteIdentifier g (jsString (getProp param ''schema'')) False @ ''.''
                   else []) @
                  quoteIdentifier g (jsString (getProp param ''tableName'')) False
                else
                  quoteIdentifier g
                    ((if truthy (getProp param ''schema'')
                      then jsString (getProp param ''schema'') @
                           jsString (jsOr (getProp param ''delimiter'') (JStr ''.''))
                      else []) @
                     jsString (getProp param ''tableName'')) False)
             else quoteIdentifier g (jsString param) False)
      in if truthy as then table @ '' AS '' @ quoteIdentifier g (jsString as) False else table)"

section \<open>The WHERE compiler\<close>

subsection \<open>Tables and small helpers\<close>

fun comparatorMap :: "string \<Rightarrow> string option" where
  "comparatorMap k =
     (if k = ''$eq'' then Some ''=''
      else if k = ''$ne'' then Some ''!=''
      else if k = ''$gte'' then Some ''>=''
      else if k = ''$gt'' then Some ''>''
      else if k = ''$lte'' then Some ''<=''
      else if k = ''$lt'' then Some ''<''
      else if k = ''$not'' then Some ''IS NOT''
      else if k = ''$is'' then Some ''IS''
      else if k = ''$like'' then Some ''LIKE''
      else if k = ''$notLike'' then Some ''NOT LIKE''
      else if k = ''$iLike'' then Some ''ILIKE''
      else if k = ''$notILike'' then Some ''NOT ILIKE''
      else if k = ''$between'' then Some ''BETWEEN''
      else if k = ''$notBetween'' then Some ''NOT BETWEEN''
      else if k = ''$overlap'' then Some ''&&''
      else if k = ''$contains'' then Some ''@>''
      else if k = ''$contained'' then Some ''<@''
      else if k = ''$adjacent'' then Some ''-|-''
      else if k = ''$strictLeft'' then Some ''<<''
      else if k = ''$strictRight'' then Some ''>>''
      else if k = ''$noExtendRight'' then Some ''&<''
      else if k = ''$noExtendLeft'' then Some ''&>''
      else None)"

definition aliasList :: "(string \<times> string) list" where
  "aliasList =
     [(''ne'', ''$ne''), (''in'', ''$in''), (''not'', ''$not''), (''notIn'', ''$notIn''),
      (''gte'', ''$gte''), (''gt'', ''$gt''), (''lte'', ''$lte''), (''lt'', ''$lt''),
      (''like'', ''$like''), (''ilike'', ''$iLike''), (''$ilike'', ''$iLike''),
      (''nlike'', ''$notLike''), (''$notlike'', ''$notLike''), (''notilike'', ''$notILike''),
      (''..'', ''$between''), (''between'', ''$between''), (''!..'', ''$notBetween''),
      (''notbetween'', ''$notBetween''), (''nbetween'', ''$notBetween''),
      (''overlap'', ''$overlap''), (''&&'', ''$overlap''), (''@>'', ''$contains''),
      (''<@'', ''$contained'')]"

definition aliasMap :: "string \<Rightarrow> string option" where
  "aliasMap k = map_of aliasList k"

text \<open>\<^verbatim>\<open>key = aliasMap[key] || key\<close>: only a string can name an entry of the table.\<close>

definition aliasKey :: "jsval \<Rightarrow> jsval" where
  "aliasKey key =
     (case key of
        JStr k \<Rightarrow> (case aliasMap k of Some c \<Rightarrow> JStr c | None \<Rightarrow> key)
      | _ \<Rightarrow> key)"

text \<open>
  The loop that renames the first-level alias keys of a mapping value in place.
  \<^verbatim>\<open>_.forOwn\<close> walks the keys the object had when the loop began and reads each
  value when its turn comes.
\<close>

definition aliasStep :: "(string \<times> jsval) list \<Rightarrow> string \<Rightarrow> (string \<times> jsval) list" where
  "aliasStep obj k =
     (case aliasMap k of
        None \<Rightarrow> obj
      | Some c \<Rightarrow> objDelete (objSet obj c (objGet obj k)) k)"

definition aliasRewrite :: "jsval \<Rightarrow> jsval" where
  "aliasRewrite value =
     (case value of
        JObj kvs \<Rightarrow> JObj (foldl aliasStep kvs (map fst kvs))
      | _ \<Rightarrow> value)"

text \<open>\<^verbatim>\<open>Dottie.set({}, path, v)\<close>: the object that holds \<open>v\<close> under the nested \<open>path\<close>.\<close>

definition dottieSet :: "string list \<Rightarrow> jsval \<Rightarrow> jsval" where
  "dottieSet path v = foldr (\<lambda>p acc. JObj [(p, acc)]) path v"

text \<open>
  The caller's value sits \<open>n\<close> levels below the top of the object that \<open>dottieSet\<close>
  built around it; \<open>unDottie n\<close> reads it back.
\<close>

fun unDottie :: "nat \<Rightarrow> jsval \<Rightarrow> jsval" where
  "unDottie 0 v = v"
| "unDottie (Suc n) (JObj [(k, v)]) = unDottie n v"
| "unDottie (Suc n) v = v"

text \<open>The value of a one-entry object, for reading a child back out of a fresh wrapper.\<close>

fun soleValue :: "jsval \<Rightarrow> jsval \<Rightarrow> jsval" where
  "soleValue (JObj [(k, x)]) d = x"
| "soleValue v d = d"

text \<open>\<^verbatim>\<open>_.size\<close> of an array or a plain object, and the guard \<^verbatim>\<open>item && item.length\<close>.\<close>

fun jsSize :: "jsval \<Rightarrow> nat" where
  "jsSize (JArr xs) = length xs"
| "jsSize (JObj kvs) = length kvs"
| "jsSize (JStr s) = length s"
| "jsSize _ = 0"

fun hasLength :: "jsval \<Rightarrow> bool" where
  "hasLength (JStr s) = (s \<noteq> [])"
| "hasLength (JArr xs) = (xs \<noteq> [])"
| "hasLength (JObj kvs) = truthy (objGet kvs ''length'')"
| "hasLength _ = False"

fun isFn :: "jsval \<Rightarrow> bool" where
  "isFn (Fn _ _) = True"
| "isFn _ = False"

definition isKind :: "type_kind \<Rightarrow> data_type option \<Rightarrow> bool" where
  "isKind k t = (case t of None \<Rightarrow> False | Some ty \<Rightarrow> dt_kind ty = k)"

definition lookupField :: "where_options \<Rightarrow> jsval \<Rightarrow> attribute option" where
  "lookupField options key =
     (case wo_field options of
        Some f \<Rightarrow> Some f
      | None \<Rightarrow>
          (case wo_model options of
             None \<Rightarrow> None
           | Some m \<Rightarrow>
               (case map_of (md_rawAttributes m) (jsString key) of
                  Some a \<Rightarrow> Some a
                | None \<Rightarrow> map_of (md_fieldRawAttributesMap m) (jsString key))))"

definition lookupFieldType :: "where_options \<Rightarrow> attribute option \<Rightarrow> data_type option" where
  "lookupFieldType options field =
     (case wo_type options of
        Some t \<Rightarrow> Some t
      | None \<Rightarrow> (case field of None \<Rightarrow> None | Some f \<Rightarrow> at_type f))"

text \<open>
  The attribute that a dotted key such as \<^verbatim>\<open>data.a.b\<close> starts with, when that
  attribute is of type JSON.
\<close>

definition jsonHead :: "where_options \<Rightarrow> jsval \<Rightarrow> attribute option" where
  "jsonHead options key =
     (case key of
        JStr k \<Rightarrow>
          (case wo_model options of
             None \<Rightarrow> None
           | Some m \<Rightarrow>
               (if k \<noteq> [] \<and> contains k ''.'' then
                  (case map_of (md_rawAttributes m) (hd (splitOn CHR ''.'' k)) of
                     None \<Rightarrow> None
                   | Some a \<Rightarrow> (if isKind JSON (at_type a) then Some a else None))
                else None))
      | _ \<Rightarrow> None)"

text \<open>Folding all but the last part of a dotted column path into one identifier.\<close>

definition foldPath :: "string list \<Rightarrow> string list" where
  "foldPath parts = (if length parts > 2 then [join ''.'' (butlast parts), last parts] else parts)"

subsection \<open>escape, handleSequelizeMethod, getWhereConditions\<close>

definition escape :: "generator \<Rightarrow> methods \<Rightarrow> jsval \<Rightarrow> attribute option \<Rightarrow> bool \<Rightarrow> jsval result" where
  "escape g this value field isList =
     (if value \<noteq> JNull \<and> value \<noteq> JUndefined then
        (if isSequelizeMethod value then
           handleSequelizeMethod_m this value JUndefined None JUndefined
         else
           (case (case field of None \<Rightarrow> None | Some f \<Rightarrow> at_type f) of
              None \<Rightarrow> Inr (JStr (sqlEscape g value))
            | Some ty \<Rightarrow>
                (if typeValidation g \<and> truthy value \<and>
                    (case dt_validate ty of
                       None \<Rightarrow> False
                     | Some valid \<Rightarrow>
                         (case value of
                            JArr xs \<Rightarrow> (if isList then \<not> list_all valid xs else \<not> valid value)
                          | _ \<Rightarrow> \<not> valid value))
                 then Inl ValidationError
                 else
                   (case dt_stringify ty of
                      None \<Rightarrow> Inr (JStr (sqlEscape g value))
                    | Some stringify \<Rightarrow>
                        (if dt_escape_false ty then Inr (stringify value)
                         else Inr (JStr (sqlEscape g (stringify value))))))))
      else Inr (JStr (sqlEscape g value)))"

text \<open>
  \<^verbatim>\<open>handleSequelizeMethod(smth, tableName, factory, options, prepend)\<close>. The
  \<^verbatim>\<open>options\<close> are only handed on to \<^verbatim>\<open>getWhereConditions\<close>, which does not read
  them, so the model leaves them out. \<^verbatim>\<open>booleanValue\<close> of the abstract generator
  returns its argument.
\<close>

definition escapeOrHandle ::
  "methods \<Rightarrow> jsval \<Rightarrow> jsval \<Rightarrow> model option \<Rightarrow> jsval \<Rightarrow> jsval result" where
  "escapeOrHandle this arg tableName factory prepend =
     (if arg = JNull \<or> arg = JUndefined then Inl TypeError
      else if isSequelizeMethod arg then handleSequelizeMethod_m this arg tableName factory prepend
      else escape_m this arg None False)"

definition handleSequelizeMethod ::
  "generator \<Rightarrow> methods \<Rightarrow> jsval \<Rightarrow> jsval \<Rightarrow> model option \<Rightarrow> jsval \<Rightarrow> jsval result" where
  "handleSequelizeMethod g this smth tableName factory prepend =
     (case smth of
        Where attr comparator logic \<Rightarrow>
          bind_result
            (if isSequelizeMethod attr then getWhereConditions_m this attr tableName factory prepend
             else
               (case attr of
                  ModelAttribute m f fieldName \<Rightarrow>
                    Inr (JStr (quoteTable g (JStr m) JUndefined @ ''.'' @
                      quoteIdentifier g
                        (case f of None \<Rightarrow> fieldName
                         | Some x \<Rightarrow> (if x = [] then fieldName else x)) False))
                | _ \<Rightarrow> Inl TypeError))
            (\<lambda>key.
               if truthy logic \<and> isSequelizeMethod logic then
                 bind_result (getWhereConditions_m this logic tableName factory prepend)
                   (\<lambda>value.
                      Inr (if value = JStr ''NULL'' then JStr (jsString key @ '' IS NULL'')
                           else JStr (jsJoin comparator [key, value])))
               else if isPlainObject logic then
                 bind_result
                   (whereItemQuery_m this attr logic (Some (no_options\<lparr>wo_model := factory\<rparr>)))
                   (\<lambda>r. Inr (snd r))
               else
                 bind_result
                   (case logic of
                      JBool b \<Rightarrow> Inr logic
                    | _ \<Rightarrow> escape_m this logic None False)
                   (\<lambda>value.
                      Inr (if value = JStr ''NULL'' then JStr (jsString key @ '' IS NULL'')
                           else JStr (jsJoin ('' '' @ comparator @ '' '') [key, value]))))
      | Literal val \<Rightarrow> Inr (JStr val)
      | Cast val ty \<Rightarrow>
          bind_result (escapeOrHandle this val tableName factory prepend)
            (\<lambda>r. Inr (JStr (''CAST('' @ jsString r @ '' AS '' @ toUpperCase ty @ '')'')))
      | Fn fn args \<Rightarrow>
          bind_result (mapR (\<lambda>arg. escapeOrHandle this arg tableName factory prepend) args)
            (\<lambda>rs. Inr (JStr (fn @ ''('' @ jsJoin '', '' rs @ '')'')))
      | Col col \<Rightarrow>
          (case col of
             JArr xs \<Rightarrow>
               (if factory = None then Inl ColOutsideOrderGroup
                else quote_m this col (modelRef factory) False)
           | JStr c \<Rightarrow>
               (if indexOf c ''*'' = 0 then Inr (JStr ''*'')
                else quote_m this col (modelRef factory) False)
           | _ \<Rightarrow> Inl TypeError)
      | _ \<Rightarrow> Inr (JStr (jsString smth)))"

definition getWhereConditions ::
  "generator \<Rightarrow> methods \<Rightarrow> jsval \<Rightarrow> jsval \<Rightarrow> model option \<Rightarrow> jsval \<Rightarrow> jsval result" where
  "getWhereConditions g this smth tableName0 factory prepend0 =
     (let tableName =
            (case tableName0 of
               JArr ts \<Rightarrow>
                 (case (if ts = [] then JUndefined else hd ts) of
                    JArr us \<Rightarrow> (if length us > 1 then us ! 1 else JUndefined)
                  | t \<Rightarrow> t)
             | t \<Rightarrow> t);
          prepend = (if prepend0 = JUndefined then JBool True else prepend0);
          options = Some (no_options\<lparr>wo_model := factory,
                      wo_prefix := (if truthy prepend then tableName else prepend)\<rparr>);
          items = (\<lambda>w. bind_result (whereItemsQuery_m this w options None)
                          (\<lambda>r. Inr (JStr (snd r))));
          orDefault = (\<lambda>r. Inr (if truthy r then r else JStr ''1=1''))
      in
        if truthy smth \<and> isSequelizeMethod smth then
          bind_result (handleSequelizeMethod_m this smth tableName factory prepend) orDefault
        else
          (case smth of
             JObj kvs \<Rightarrow> items smth
           | JNum n \<Rightarrow>
               items (JObj [(case (case factory of None \<Rightarrow> [] | Some m \<Rightarrow> md_primaryKeys m) of
                               [] \<Rightarrow> ''id'' | pk # pks \<Rightarrow> pk, smth)])
           | JStr w \<Rightarrow> items smth
           | JArr xs \<Rightarrow>
               (if xs = [] then Inr (JStr ''1=1'')
                else if canTreatArrayAsAnd g xs then
                  bind_result
                    (getWhereConditions_m this (JObj [(''$and'', smth)]) tableName factory prepend)
                    orDefault
                else orDefault (JStr (format g xs)))
           | JNull \<Rightarrow> items smth
           | _ \<Rightarrow> Inr (JStr ''1=1'')))"

subsection \<open>whereItemsQuery\<close>

definition whereItemsQuery ::
  "generator \<Rightarrow> methods \<Rightarrow> jsval \<Rightarrow> where_options option \<Rightarrow> string option \<Rightarrow>
   (jsval \<times> string) result" where
  "whereItemsQuery g this where1 options binding0 =
     (if where1 = JArr [] \<or> where1 = JObj [] \<or> where1 = JNull \<or> where1 = JUndefined
      then Inr (where1, [])
      else if isString where1 then Inl RawWhereRemoved
      else
        (let b = (case binding0 of None \<Rightarrow> ''AND'' | Some x \<Rightarrow> (if x = [] then ''AND'' else x));
             binding = (if take 1 b \<noteq> '' '' then '' '' @ b @ '' '' else b);
             finish = (\<lambda>items. join binding
                         (map jsJoinItem (filter (\<lambda>item. truthy item \<and> hasLength item) items)))
         in case where1 of
              JObj kvs \<Rightarrow>
                bind_result
                  (mapR (\<lambda>kv. bind_result (whereItemQuery_m this (JStr (fst kv)) (snd kv) options)
                                 (\<lambda>r. Inr ((fst kv, fst r), snd r))) kvs)
                  (\<lambda>rs. Inr (JObj (map fst rs), finish (map snd rs)))
            | _ \<Rightarrow>
                bind_result (whereItemQuery_m this JUndefined where1 options)
                  (\<lambda>r. Inr (fst r, finish [snd r]))))"

subsection \<open>whereItemQuery: the logical combinators\<close>

text \<open>The branch for the keys \<^verbatim>\<open>$or\<close>, \<^verbatim>\<open>$and\<close> and \<^verbatim>\<open>$not\<close>.\<close>

definition whereGroup ::
  "methods \<Rightarrow> string \<Rightarrow> jsval \<Rightarrow> where_options option \<Rightarrow> (jsval \<times> jsval) result" where
  "whereGroup this key value options =
     (let binding = (if key = ''$or'' then '' OR '' else '' AND '');
          outerBinding = (if key = ''$not'' then ''NOT '' else [])
      in case value of
           JArr items \<Rightarrow>
             bind_result
               (mapR (\<lambda>item. bind_result (whereItemsQuery_m this item options (Some '' AND ''))
                        (\<lambda>r. Inr (fst r,
                           if (isArray item \<or> isPlainObject item) \<and> jsSize item > 1
                           then ''('' @ snd r @ '')'' else snd r))) items)
               (\<lambda>rs.
                  let qs = filter (\<lambda>q. q \<noteq> []) (map snd rs)
                  in if (key = ''$or'' \<or> key = ''$not'') \<and> qs = []
                     then Inr (JArr (map fst rs), JStr ''0 = 1'')
                     else if qs \<noteq> []
                     then Inr (JArr (map fst rs),
                            JStr (outerBinding @ ''('' @ join binding qs @ '')''))
                     else Inr (JArr (map fst rs), JUndefined))
         | _ \<Rightarrow>
             bind_result (whereItemsQuery_m this value options (Some binding))
               (\<lambda>r.
                  if (key = ''$or'' \<or> key = ''$not'') \<and> snd r = []
                  then Inr (fst r, JStr ''0 = 1'')
                  else if snd r \<noteq> []
                  then Inr (fst r, JStr (outerBinding @ ''('' @ snd r @ '')''))
                  else Inr (fst r, JUndefined)))"

text \<open>
  The branch for a value that owns a truthy \<^verbatim>\<open>$or\<close> or \<^verbatim>\<open>$and\<close>: the key is
  distributed over the elements. A plain object is first cut into one-entry objects.
\<close>

definition whereNested ::
  "methods \<Rightarrow> jsval \<Rightarrow> (string \<times> jsval) list \<Rightarrow> where_options option \<Rightarrow>
   (jsval \<times> jsval) result" where
  "whereNested this key kvs options =
     (let which = (if truthy (objGet kvs ''$or'') then ''$or'' else ''$and'');
          binding = (if which = ''$or'' then '' OR '' else '' AND '');
          finish = (\<lambda>v' rs.
             let qs = filter (\<lambda>item. truthy item \<and> hasLength item) rs
             in Inr (JObj (objSet kvs which v'),
                  if qs \<noteq> [] then JStr (''('' @ jsJoin binding qs @ '')'') else JUndefined))
      in case objGet kvs which of
           JObj entries \<Rightarrow>
             bind_result
               (mapR (\<lambda>kv. bind_result
                        (whereItemQuery_m this key (JObj [(fst kv, snd kv)]) options)
                        (\<lambda>r. Inr ((fst kv, soleValue (fst r) (snd kv)), snd r))) entries)
               (\<lambda>rs. finish (JObj (map fst rs)) (map snd rs))
         | JArr xs \<Rightarrow>
             bind_result (mapR (\<lambda>x. whereItemQuery_m this key x options) xs)
               (\<lambda>rs. finish (JArr (map fst rs)) (map snd rs))
         | _ \<Rightarrow> Inl TypeError)"

text \<open>The branch for a value with more than one key: one conjunct for each key.\<close>

definition whereMulti ::
  "methods \<Rightarrow> jsval \<Rightarrow> (string \<times> jsval) list \<Rightarrow> where_options option \<Rightarrow>
   (jsval \<times> jsval) result" where
  "whereMulti this key kvs options =
     bind_result
       (mapR (\<lambda>kv. bind_result
                (whereItemQuery_m this key (JObj [(fst kv, snd kv)]) options)
                (\<lambda>r. Inr ((fst kv, soleValue (fst r) (snd kv)), snd r))) kvs)
       (\<lambda>rs. Inr (JObj (map fst rs), JStr (''('' @ jsJoin '' AND '' (map snd rs) @ '')'')))"

subsection \<open>whereItemQuery: JSON attributes\<close>

text \<open>
  The branch for a mapping value on a JSON attribute. \<open>traverse\<close> is the local function
  of that name; it returns the fragments it pushes on \<^verbatim>\<open>$items\<close>. Its \<^verbatim>\<open>$where\<close>
  object and its \<^verbatim>\<open>$cast\<close> variable live as long as one call of \<open>traverse\<close> and are
  threaded through the loop over the properties (\<open>traverseProps\<close>); an unset \<^verbatim>\<open>$cast\<close>
  is the empty string. What this branch changes in place inside the caller's value is
  not tracked: the branch returns the value as it received it.
\<close>

definition castKey :: "string \<Rightarrow> string \<Rightarrow> jsval \<Rightarrow> string \<times> string" where
  "castKey baseKey cast item =
     (let cast' = (if cast = [] then
                     (case item of
                        JNum n \<Rightarrow> ''double precision''
                      | JDate d \<Rightarrow> ''timestamptz''
                      | JBool b \<Rightarrow> ''boolean''
                      | _ \<Rightarrow> [])
                   else cast)
      in (cast', if cast' \<noteq> [] then baseKey @ ''::'' @ cast' else baseKey))"

definition jsonBaseKey ::
  "generator \<Rightarrow> methods \<Rightarrow> jsval \<Rightarrow> where_options \<Rightarrow> string list \<Rightarrow> string result" where
  "jsonBaseKey g this key options path =
     (let baseKey = quoteIdentifier g (jsString key) False @ ''#>>'' @ [CHR 0x27] @ ''{'' @
                    join '', '' path @ ''}'' @ [CHR 0x27]
      in if truthy (wo_prefix options) then
           (if isLiteral (wo_prefix options) then
              bind_result (handleSequelizeMethod_m this (wo_prefix options) JUndefined None JUndefined)
                (\<lambda>p. Inr (''('' @ jsString p @ ''.'' @ baseKey @ '')''))
            else Inr (''('' @ quoteTable g (wo_prefix options) JUndefined @ ''.'' @ baseKey @ '')''))
         else Inr (''('' @ baseKey @ '')''))"

fun traverse ::
  "generator \<Rightarrow> methods \<Rightarrow> jsval \<Rightarrow> where_options \<Rightarrow> jsval \<Rightarrow> string list \<Rightarrow>
   jsval list result"
  and traverseProps ::
  "generator \<Rightarrow> methods \<Rightarrow> jsval \<Rightarrow> where_options \<Rightarrow> string list \<Rightarrow> string \<Rightarrow>
   (string \<times> jsval) list \<Rightarrow> (string \<times> jsval) list \<Rightarrow> string \<Rightarrow> jsval list result" where
  "traverse g this key options item path0 =
     (let l = last path0;
          cast = (if contains l ''::'' then
                    (case splitCast l of a # b # rest \<Rightarrow> b | _ \<Rightarrow> [])
                  else []);
          path = (if contains l ''::'' then butlast path0 @ [hd (splitCast l)] else path0)
      in bind_result (jsonBaseKey g this key options path)
           (\<lambda>baseKey.
              case item of
                JObj kvs \<Rightarrow> traverseProps g this key options path baseKey kvs [] cast
              | _ \<Rightarrow>
                  bind_result
                    (whereItemQuery_m this (Literal (snd (castKey baseKey cast item)))
                       (JObj [(''$eq'', item)]) None)
                    (\<lambda>r. Inr [snd r])))"
| "traverseProps g this key options path baseKey [] where1 cast = Inr []"
| "traverseProps g this key options path baseKey ((p, x) # rest) where1 cast =
     (if take 1 p = ''$'' then
        (let ck = castKey baseKey cast x
         in bind_result (whereItemQuery_m this (Literal (snd ck)) (JObj (objSet where1 p x)) None)
              (\<lambda>r. bind_result
                      (traverseProps g this key options path baseKey rest
                         (case fst r of JObj kvs' \<Rightarrow> kvs' | _ \<Rightarrow> objSet where1 p x) (fst ck))
                      (\<lambda>rs. Inr (snd r # rs))))
      else
        bind_result (traverse g this key options x (path @ [p]))
          (\<lambda>rs1. bind_result (traverseProps g this key options path baseKey rest where1 cast)
                    (\<lambda>rs2. Inr (rs1 @ rs2))))"

definition whereJSON ::
  "generator \<Rightarrow> methods \<Rightarrow> jsval \<Rightarrow> (string \<times> jsval) list \<Rightarrow> where_options \<Rightarrow>
   (jsval \<times> jsval) result" where
  "whereJSON g this key kvs options =
     bind_result
       (mapR (\<lambda>kv.
                if take 1 (fst kv) = ''$'' then
                  bind_result
                    (whereItemQuery_m this key (JObj [(fst kv, snd kv)])
                       (Some (options\<lparr>wo_json := False\<rparr>)))
                    (\<lambda>r. Inr [snd r])
                else traverse g this key options (snd kv) [fst kv]) kvs)
       (\<lambda>rss.
          let items = concat rss; result = jsJoin '' AND '' items
          in Inr (JObj kvs, JStr (if length items > 1 then ''('' @ result @ '')'' else result)))"

subsection \<open>whereItemQuery: one operator\<close>

text \<open>
  The two normalisations before the comparator is chosen. \<open>normalizeIn\<close> wraps a bare
  array as \<^verbatim>\<open>{$in: value}\<close> (a new object) or renames \<^verbatim>\<open>$not\<close> with an array to
  \<^verbatim>\<open>$notIn\<close> in place; \<open>normalizeNot\<close> renames any other \<^verbatim>\<open>$not\<close> that is not
  \<^verbatim>\<open>null\<close> or a boolean to \<^verbatim>\<open>$ne\<close> in place.
\<close>

definition renameKey :: "string \<Rightarrow> string \<Rightarrow> jsval \<Rightarrow> jsval" where
  "renameKey old new value =
     (case value of
        JObj kvs \<Rightarrow> JObj (objDelete (objSet kvs new (objGet kvs old)) old)
      | _ \<Rightarrow> value)"

definition normalizeIn :: "data_type option \<Rightarrow> jsval \<Rightarrow> jsval" where
  "normalizeIn fieldType value =
     (if truthy value \<and> \<not> isKind ARRAY fieldType then
        (if isArray value then JObj [(''$in'', value)]
         else if isArray (getProp value ''$not'') then renameKey ''$not'' ''$notIn'' value
         else value)
      else value)"

definition normalizeNot :: "jsval \<Rightarrow> jsval" where
  "normalizeNot value =
     (if truthy value \<and> getProp value ''$not'' \<noteq> JUndefined \<and>
         getProp value ''$not'' \<noteq> JNull \<and> getProp value ''$not'' \<noteq> JBool True \<and>
         getProp value ''$not'' \<noteq> JBool False
      then renameKey ''$not'' ''$ne'' value
      else value)"

text \<open>
  What the choice of comparator ends in: \<open>Done r\<close> where the source returns \<open>r\<close> at
  once, \<open>Emit comparator value\<close> where it goes on to the key.
\<close>

datatype emission = Done jsval | Emit string jsval

text \<open>
  The loop of the last branch over the keys of a mapping value. Its state is the
  comparator, the value, \<^verbatim>\<open>escapeOptions.isList\<close> and \<^verbatim>\<open>escapeValue\<close>; the entries
  already visited are returned as the callee left them.
\<close>

fun comparatorLoop ::
  "methods \<Rightarrow> (string \<times> jsval) list \<Rightarrow> string \<times> jsval \<times> bool \<times> bool \<Rightarrow>
   ((string \<times> jsval) list \<times> string \<times> jsval \<times> bool \<times> bool) result" where
  "comparatorLoop this [] st = Inr ([], st)"
| "comparatorLoop this ((k, item) # rest) (comparator, value, isList, escapeValue) =
     (case comparatorMap k of
        None \<Rightarrow>
          bind_result (comparatorLoop this rest (comparator, value, isList, escapeValue))
            (\<lambda>r. Inr ((k, item) # fst r, snd r))
      | Some c \<Rightarrow>
          (if isPlainObject item \<and> truthy (getProp item ''$any'') then
             bind_result
               (comparatorLoop this rest (c @ '' ANY'', getProp item ''$any'', True, escapeValue))
               (\<lambda>r. Inr ((k, item) # fst r, snd r))
           else if isPlainObject item \<and> truthy (getProp item ''$all'') then
             bind_result
               (comparatorLoop this rest (c @ '' ALL'', getProp item ''$all'', True, escapeValue))
               (\<lambda>r. Inr ((k, item) # fst r, snd r))
           else if truthy item \<and> truthy (getProp item ''$col'') then
             bind_result (whereItemQuery_m this JNull item None)
               (\<lambda>q. bind_result (comparatorLoop this rest (c, snd q, isList, False))
                       (\<lambda>r. Inr ((k, fst q) # fst r, snd r)))
           else
             bind_result (comparatorLoop this rest (c, item, isList, escapeValue))
               (\<lambda>r. Inr ((k, item) # fst r, snd r))))"

definition emitGeneral ::
  "methods \<Rightarrow> attribute option \<Rightarrow> jsval \<Rightarrow> (jsval \<times> emission) result" where
  "emitGeneral this field value =
     bind_result
       (case value of
          JObj kvs \<Rightarrow>
            bind_result (comparatorLoop this kvs (''='', value, False, True))
              (\<lambda>r. Inr (JObj (fst r), snd r))
        | _ \<Rightarrow> Inr (value, (''='', value, False, True)))
       (\<lambda>r. case snd r of
          (comparator0, v, isList, escapeValue) \<Rightarrow>
            (let comparator =
                   (if comparator0 = ''='' \<and> v = JNull then ''IS''
                    else if comparator0 = ''!='' \<and> v = JNull then ''IS NOT''
                    else comparator0);
                 acceptStrings = (indexOf comparator ''LIKE'' \<noteq> - 1)
             in if escapeValue then
                  bind_result (escape_m this v field isList)
                    (\<lambda>e. Inr (fst r, Emit comparator
                       (if acceptStrings \<and> indexOf comparator ''ANY'' > indexOf comparator ''LIKE''
                        then JStr (''('' @ jsString e @ '')'') else e)))
                else Inr (fst r, Emit comparator v)))"

text \<open>The chain that sets up the comparator and the SQL of the value side.\<close>

definition emitValue ::
  "generator \<Rightarrow> methods \<Rightarrow> attribute option \<Rightarrow> data_type option \<Rightarrow> jsval \<Rightarrow>
   (jsval \<times> emission) result" where
  "emitValue g this field fieldType value =
     (let v_in = getProp value ''$in''; v_notIn = getProp value ''$notIn'';
          v_any = getProp value ''$any''; v_all = getProp value ''$all'';
          v_between = getProp value ''$between''; v_notBetween = getProp value ''$notBetween'';
          escapeAll = (\<lambda>xs. mapR (\<lambda>item. escape_m this item None False) xs)
      in
        if isArray value \<and> isKind ARRAY fieldType then
          bind_result (escape_m this value field False) (\<lambda>e. Inr (value, Emit ''='' e))
        else if truthy value \<and> (truthy v_in \<or> truthy v_notIn) then
          (let comparator = (if truthy v_notIn then ''NOT IN'' else ''IN'');
               x = jsOr v_in v_notIn
           in case x of
                Literal val \<Rightarrow> Inr (value, Emit comparator (JStr val))
              | _ \<Rightarrow>
                  (if hasLength x then
                     (case x of
                        JArr xs \<Rightarrow>
                          bind_result (escapeAll xs)
                            (\<lambda>es. Inr (value,
                               Emit comparator (JStr (''('' @ jsJoin '', '' es @ '')''))))
                      | _ \<Rightarrow> Inl TypeError)
                   else if truthy v_in then Inr (value, Emit comparator (JStr ''(NULL)''))
                   else Inr (value, Done (JStr []))))
        else if truthy value \<and> (truthy v_any \<or> truthy v_all) then
          (let comparator = (if truthy v_any then ''= ANY'' else ''= ALL'');
               vals = jsOr (if truthy v_any then getProp v_any ''$values'' else v_any)
                           (if truthy v_all then getProp v_all ''$values'' else v_all)
           in if truthy vals then
                (case vals of
                   JArr xs \<Rightarrow>
                     bind_result (escapeAll xs)
                       (\<lambda>es. Inr (value, Emit comparator
                          (JStr (''(VALUES '' @
                             join '', '' (map (\<lambda>e. ''('' @ jsString e @ '')'') es) @ '')''))))
                 | _ \<Rightarrow> Inl TypeError)
              else
                bind_result (escape_m this (jsOr v_any v_all) field False)
                  (\<lambda>e. Inr (value, Emit comparator (JStr (''('' @ jsString e @ '')'')))))
        else if truthy value \<and> (truthy v_between \<or> truthy v_notBetween) then
          (let comparator = (if truthy v_notBetween then ''NOT BETWEEN'' else ''BETWEEN'')
           in case jsOr v_between v_notBetween of
                JArr xs \<Rightarrow>
                  bind_result (escapeAll xs)
                    (\<lambda>es. Inr (value, Emit comparator (JStr (jsJoin '' AND '' es))))
              | _ \<Rightarrow> Inl TypeError)
        else if truthy value \<and> truthy (getProp value ''$raw'') then
          Inr (value, Emit ''='' (getProp value ''$raw''))
        else if truthy value \<and> truthy (getProp value ''$col'') then
          (case getProp value ''$col'' of
             JStr c \<Rightarrow>
               Inr (value, Emit ''=''
                 (JStr (join ''.'' (map (\<lambda>identifier. quoteIdentifier g identifier False)
                                      (foldPath (splitOn CHR ''.'' c))))))
           | _ \<Rightarrow> Inl TypeError)
        else emitGeneral this field value)"

text \<open>The key side, and the fragment \<^verbatim>\<open>key comparator value\<close>.\<close>

definition emitKey ::
  "generator \<Rightarrow> methods \<Rightarrow> jsval \<Rightarrow> where_options \<Rightarrow> string \<Rightarrow> jsval \<Rightarrow> jsval result" where
  "emitKey g this key options comparator value =
     (if truthy key then
        bind_result
          (if isSequelizeMethod key then
             bind_result (handleSequelizeMethod_m this key JUndefined None JUndefined)
               (\<lambda>k. Inr (k, True))
           else if isColString g key then
             (case key of
                JStr k \<Rightarrow>
                  Inr (JStr (join ''.'' (map (\<lambda>identifier. quoteIdentifier g identifier False)
                         (foldPath (splitOn CHR ''.'' (take (length k - 2) (drop 1 k)))))), False)
              | _ \<Rightarrow> Inl TypeError)
           else Inr (JStr (quoteIdentifier g (jsString key) False), True))
          (\<lambda>kp.
             bind_result
               (if truthy (wo_prefix options) \<and> snd kp then
                  (if isLiteral (wo_prefix options) then
                     bind_result
                       (handleSequelizeMethod_m this (wo_prefix options) JUndefined None JUndefined)
                       (\<lambda>p. Inr (JStr (jsJoin ''.'' [p, fst kp])))
                   else Inr (JStr (jsJoin ''.''
                          [JStr (quoteTable g (wo_prefix options) JUndefined), fst kp])))
                else Inr (fst kp))
               (\<lambda>k. Inr (JStr (jsJoin ('' '' @ comparator @ '' '') [k, value]))))
      else Inr value)"

definition whereSingle ::
  "generator \<Rightarrow> methods \<Rightarrow> jsval \<Rightarrow> jsval \<Rightarrow> where_options \<Rightarrow> attribute option \<Rightarrow>
   data_type option \<Rightarrow> (jsval \<times> jsval) result" where
  "whereSingle g this key value options field fieldType =
     bind_result (emitValue g this field fieldType (normalizeNot (normalizeIn fieldType value)))
       (\<lambda>r.
          let after = (if truthy value \<and> \<not> isKind ARRAY fieldType \<and> isArray value
                       then value else fst r)
          in case snd r of
               Done q \<Rightarrow> Inr (after, q)
             | Emit comparator v \<Rightarrow>
                 bind_result (emitKey g this key options comparator v) (\<lambda>q. Inr (after, q)))"

subsection \<open>whereItemQuery\<close>

text \<open>
  \<open>whereItemCore\<close> is the body of \<^verbatim>\<open>whereItemQuery\<close> from the test for an expression
  object on; \<open>whereItemBody\<close> puts the step before it that, for an absent key, returns a
  string as it is and opens a one-entry object; \<open>whereItemQuery\<close> begins with the lookup
  of the field, the rewrite of a dotted key on a JSON attribute and the alias map.
\<close>

definition whereItemCore ::
  "generator \<Rightarrow> methods \<Rightarrow> jsval \<Rightarrow> jsval \<Rightarrow> where_options \<Rightarrow> attribute option \<Rightarrow>
   data_type option \<Rightarrow> (jsval \<times> jsval) result" where
  "whereItemCore g this key0 value options field fieldType =
     (if truthy value \<and> isSequelizeMethod value \<and> \<not> (key0 \<noteq> JUndefined \<and> isFn value) then
        bind_result (handleSequelizeMethod_m this value JUndefined None JUndefined)
          (\<lambda>r. Inr (value, r))
      else if key0 = JUndefined \<and> isArray value \<and>
              \<not> canTreatArrayAsAnd g (case value of JArr xs \<Rightarrow> xs | _ \<Rightarrow> [])
      then Inr (value, JStr (format g (case value of JArr xs \<Rightarrow> xs | _ \<Rightarrow> [])))
      else
        (let key = (if key0 = JUndefined \<and> isArray value then JStr ''$and'' else key0)
         in if key = JStr ''$or'' \<or> key = JStr ''$and'' \<or> key = JStr ''$not'' then
              whereGroup this (jsString key) value (Some options)
            else
              (case value of
                 JObj kvs \<Rightarrow>
                   (if truthy (objGet kvs ''$or'') \<or> truthy (objGet kvs ''$and'') then
                      whereNested this key kvs (Some options)
                    else if isKind JSON fieldType \<and> wo_json options then
                      whereJSON g this key kvs options
                    else if length kvs > 1 then
                      whereMulti this key kvs (Some options)
                    else whereSingle g this key value options field fieldType)
               | _ \<Rightarrow> whereSingle g this key value options field fieldType)))"

definition whereItemBody ::
  "generator \<Rightarrow> methods \<Rightarrow> jsval \<Rightarrow> jsval \<Rightarrow> where_options \<Rightarrow> attribute option \<Rightarrow>
   data_type option \<Rightarrow> (jsval \<times> jsval) result" where
  "whereItemBody g this key value options field fieldType =
     (if key = JUndefined then
        (case value of
           JStr v \<Rightarrow> Inr (value, value)
         | JObj [(k, child)] \<Rightarrow>
             bind_result (whereItemCore g this (JStr k) child options field fieldType)
               (\<lambda>r. Inr (JObj [(k, fst r)], snd r))
         | _ \<Rightarrow> whereItemCore g this key value options field fieldType)
      else whereItemCore g this key value options field fieldType)"

definition whereItemQuery ::
  "generator \<Rightarrow> methods \<Rightarrow> jsval \<Rightarrow> jsval \<Rightarrow> where_options option \<Rightarrow>
   (jsval \<times> jsval) result" where
  "whereItemQuery g this key value options0 =
     (let options = (case options0 of None \<Rightarrow> no_options | Some o1 \<Rightarrow> o1)
      in case jsonHead options key of
           Some f \<Rightarrow>
             (let parts = splitOn CHR ''.'' (jsString key);
                  key1 = (case at_field f of
                            None \<Rightarrow> hd parts
                          | Some c \<Rightarrow> (if c = [] then hd parts else c))
              in bind_result
                   (whereItemBody g this (aliasKey (JStr key1))
                      (aliasRewrite (dottieSet (tl parts) value)) options (Some f) (at_type f))
                   (\<lambda>r. Inr (unDottie (length (tl parts)) (fst r), snd r)))
         | None \<Rightarrow>
             whereItemBody g this (aliasKey key) (aliasRewrite value) options
               (lookupField options key) (lookupFieldType options (lookupField options key)))"

subsection \<open>quote\<close>

text \<open>
  The loop of \<^verbatim>\<open>quote\<close> over the leading models of an order or group item. It
  returns the index at which it stopped, the table names collected, and the parent.
\<close>

fun quotePath ::
  "generator \<Rightarrow> jsval list \<Rightarrow> nat \<Rightarrow> string list \<Rightarrow> jsval \<Rightarrow> association_ref option \<Rightarrow>
   (nat \<times> string list \<times> jsval) result" where
  "quotePath g [] i tableNames parent parentAssociation = Inr (i, tableNames, parent)"
| "quotePath g [l] i tableNames parent parentAssociation = Inr (i, tableNames, parent)"
| "quotePath g (item # next # rest) i tableNames parent parentAssociation =
     (if item = JNull \<or> item = JUndefined then Inl TypeError
      else if (case item of ModelAttribute m f n \<Rightarrow> True | _ \<Rightarrow> False) \<or> isString item \<or>
              isSequelizeMethod item
      then Inr (i, tableNames, parent)
      else if \<not> isObject item then Inl TypeError
      else if (case item of JObj kvs \<Rightarrow> ''raw'' \<in> set (map fst kvs) | _ \<Rightarrow> False)
      then Inr (i, tableNames, parent)
      else
        (let model = (if isModel item then item else getProp item ''model'');
             as = (if isModel item then JUndefined else getProp item ''as'');
             through = (\<not> truthy as \<and>
                (case parentAssociation of
                   None \<Rightarrow> False
                 | Some pa \<Rightarrow>
                     (case as_through pa of
                        None \<Rightarrow> False
                      | Some t \<Rightarrow> (case model of JModel n tn \<Rightarrow> n = t | _ \<Rightarrow> False))))
         in bind_result
              (if through then
                 (case model of
                    JModel n tn \<Rightarrow> Inr (Some \<lparr>as_as = n, as_through = None\<rparr>)
                  | _ \<Rightarrow> Inl TypeError)
               else
                 (case parent of
                    JModel pn ptn \<Rightarrow> Inr (getAssociation g pn model as)
                  | _ \<Rightarrow> Inl TypeError))
              (\<lambda>association.
                 case association of
                   Some a \<Rightarrow>
                     quotePath g (next # rest) (Suc i) (tableNames @ [as_as a]) model (Some a)
                 | None \<Rightarrow>
                     (case model of
                        JModel n tn \<Rightarrow> Inl (NotValidAssociation (join ''.'' (tableNames @ [tn])))
                      | _ \<Rightarrow> Inl TypeError))))"

definition quote ::
  "generator \<Rightarrow> methods \<Rightarrow> jsval \<Rightarrow> jsval \<Rightarrow> bool \<Rightarrow> jsval result" where
  "quote g this obj parent force =
     (case obj of
        JStr s \<Rightarrow> Inr (JStr (quoteIdentifiers g s force))
      | JArr xs \<Rightarrow>
          bind_result (quotePath g xs 0 [] parent None)
            (\<lambda>r. case r of
               (i, tableNames, parent1) \<Rightarrow>
                 bind_result (quote_m this (if i < length xs then xs ! i else JUndefined) parent1 force)
                   (\<lambda>q.
                      let sql =
                            (if i > 0 then quoteIdentifier g (join ''.'' tableNames) False @ ''.''
                             else if isString (if xs = [] then JUndefined else hd xs) \<and> truthy parent1
                             then quoteIdentifier g
                                    (case parent1 of JModel n tn \<Rightarrow> n
                                     | _ \<Rightarrow> jsString (getProp parent1 ''name'')) False @ ''.''
                             else []) @ jsString q
                      in if Suc i < length xs then
                           (let d = xs ! Suc i
                            in if d = JNull \<or> d = JUndefined then Inl TypeError
                               else if isSequelizeMethod d then
                                 bind_result
                                   (handleSequelizeMethod_m this d JUndefined None JUndefined)
                                   (\<lambda>h. Inr (JStr (sql @ jsString h)))
                               else Inr (JStr (sql @ '' '' @ jsString d)))
                         else Inr (JStr sql)))
      | ModelAttribute m f fieldName \<Rightarrow>
          Inr (JStr (quoteTable g (JStr m) JUndefined @ ''.'' @ fieldName))
      | JObj kvs \<Rightarrow>
          (if ''raw'' \<in> set (map fst kvs) then Inr (objGet kvs ''raw'')
           else Inl UnknownOrderStructure)
      | JNull \<Rightarrow> Inl TypeError
      | JUndefined \<Rightarrow> Inl TypeError
      | _ \<Rightarrow>
          (if isSequelizeMethod obj
           then handleSequelizeMethod_m this obj JUndefined None JUndefined
           else Inl UnknownOrderStructure))"

subsection \<open>The method table\<close>

text \<open>
  \<open>queryGenerator g n\<close> is the generator whose calls of \<^verbatim>\<open>this.method\<close> may nest \<open>n\<close> deep;
  a call beyond that depth ends in \<open>OutOfFuel\<close>.
\<close>

primrec queryGenerator :: "generator \<Rightarrow> nat \<Rightarrow> methods" where
  "queryGenerator g 0 =
     \<lparr>escape_m = (\<lambda>value field isList. Inl OutOfFuel),
      handleSequelizeMethod_m = (\<lambda>smth tableName factory prepend. Inl OutOfFuel),
      getWhereConditions_m = (\<lambda>smth tableName factory prepend. Inl OutOfFuel),
      whereItemsQuery_m = (\<lambda>where1 options binding. Inl OutOfFuel),
      whereItemQuery_m = (\<lambda>key value options. Inl OutOfFuel),
      quote_m = (\<lambda>obj parent force. Inl OutOfFuel)\<rparr>"
| "queryGenerator g (Suc n) =
     \<lparr>escape_m = escape g (queryGenerator g n),
      handleSequelizeMethod_m = handleSequelizeMethod g (queryGenerator g n),
      getWhereConditions_m = getWhereConditions g (queryGenerator g n),
      whereItemsQuery_m = whereItemsQuery g (queryGenerator g n),
      whereItemQuery_m = whereItemQuery g (queryGenerator g n),
      quote_m = quote g (queryGenerator g n)\<rparr>"

text \<open>\<^verbatim>\<open>whereQuery\<close>: the fragment with its keyword, or the empty string.\<close>

definition whereQuery ::
  "generator \<Rightarrow> methods \<Rightarrow> jsval \<Rightarrow> where_options option \<Rightarrow> (jsval \<times> string) result" where
  "whereQuery g this where1 options =
     bind_result (whereItemsQuery_m this where1 options None)
       (\<lambda>r. Inr (fst r, if snd r \<noteq> [] then ''WHERE '' @ snd r else []))"

section \<open>A sample dialect\<close>

text \<open>
  A dialect for the concrete evaluations below: identifiers go in square brackets, a
  string literal in single quotes, \<^verbatim>\<open>null\<close> prints as \<^verbatim>\<open>NULL\<close>; a key is a
  column string when it begins and ends with a dollar sign, and an array is treated as
  a conjunction when each of its elements is a plain object.
\<close>

definition sampleEscape :: "jsval \<Rightarrow> string" where
  "sampleEscape v =
     (case v of
        JNull \<Rightarrow> ''NULL''
      | JUndefined \<Rightarrow> ''NULL''
      | JStr s \<Rightarrow> [CHR 0x27] @ s @ [CHR 0x27]
      | _ \<Rightarrow> jsString v)"

definition sampleSupports :: supports where
  "sampleSupports =
     \<lparr>sup_schemas = False, sup_returnValues = Some (True, False), sup_tmpTableTrigger = False,
      sup_autoIncrement_defaultValue = True, sup_autoIncrement_identityInsert = True,
      sup_autoIncrement_update = True, sup_DEFAULT = True, sup_DEFAULT_VALUES = False,
      sup_VALUES_empty = False, sup_IGNORE = [], sup_ON_DUPLICATE_KEY = False,
      sup_EXCEPTION = False, sup_LIMIT_ON_UPDATE = False, sup_UNION_ALL = True,
      sup_lock = False, sup_lockKey = False, sup_lockOf = False, sup_forShare = []\<rparr>"

definition sampleGenerator :: generator where
  "sampleGenerator =
     \<lparr>quoteIdentifier = (\<lambda>s force. ''['' @ s @ '']''),
      sqlEscape = sampleEscape,
      format = (\<lambda>xs. jsJoin '' '' xs),
      isColString = (\<lambda>k. case k of
                             JStr s \<Rightarrow> s \<noteq> [] \<and> hd s = CHR ''$'' \<and> last s = CHR ''$''
                           | _ \<Rightarrow> False),
      canTreatArrayAsAnd = (\<lambda>xs. list_all isPlainObject xs),
      removeNullValuesFromHash = (\<lambda>h. h),
      getAssociation = (\<lambda>parent model as. None),
      typeValidation = False,
      dialect_supports = sampleSupports\<rparr>"

section \<open>The mutation builders\<close>

text \<open>
  The builders write their statement as a lodash template and fill it in at the end. A
  template is a list of pieces: text, or a variable \<^verbatim>\<open><%= name %>\<close>. Text that
  the caller supplies (a table name, an \<^verbatim>\<open>onDuplicate\<close> clause) is taken to hold no
  template delimiter. A variable whose replacement is \<^verbatim>\<open>undefined\<close> or \<^verbatim>\<open>null\<close>
  prints as the empty string.
\<close>

datatype piece = T string | V string

fun render :: "(string \<times> jsval) list \<Rightarrow> piece list \<Rightarrow> string" where
  "render replacements [] = []"
| "render replacements (T s # ps) = s @ render replacements ps"
| "render replacements (V name # ps) = jsJoinItem (objGet replacements name) @ render replacements ps"

text \<open>\<^verbatim>\<open>s.trim()\<close>, with blank, tab, line feed and carriage return as white space.\<close>

definition isSpace :: "char \<Rightarrow> bool" where
  "isSpace c = (c = CHR '' '' \<or> c = CHR 0x09 \<or> c = CHR 0x0A \<or> c = CHR 0x0D)"

definition trim :: "string \<Rightarrow> string" where
  "trim s = rev (dropWhile isSpace (rev (dropWhile isSpace s)))"


text \<open>
  The columns of the temporary table that captures the output rows when the table has a
  trigger: one column for each attribute that is not VIRTUAL. An attribute without a type
  makes the source fail.
\<close>

fun tmpColumns ::
  "generator \<Rightarrow> (string \<times> attribute) list \<Rightarrow> string \<times> string \<Rightarrow> (string \<times> string) result" where
  "tmpColumns g [] acc = Inr acc"
| "tmpColumns g ((modelKey, a) # rest) (tmp, out) =
     (case at_type a of
        None \<Rightarrow> Inl TypeError
      | Some ty \<Rightarrow>
          (if dt_kind ty \<noteq> VIRTUAL then
             (let q = quoteIdentifier g ((case at_field a of None \<Rightarrow> ''undefined'' | Some f \<Rightarrow> f)) False;
                  sep = (if tmp \<noteq> [] then '','' else [])
              in tmpColumns g rest
                   (tmp @ sep @ q @ '' '' @ dt_toSql ty, out @ sep @ ''INSERTED.'' @ q))
           else tmpColumns g rest (tmp, out)))"

subsection \<open>insertQuery\<close>

text \<open>
  The options of \<^verbatim>\<open>insertQuery\<close>. \<open>io_newDatabase\<close> says whether the database
  version of the connection is at least 9.2.0 and \<open>io_uuid\<close> is the UUID that this call
  draws; both reach the source from outside (\<^verbatim>\<open>semver\<close>, \<^verbatim>\<open>node-uuid\<close>).
\<close>

record insert_options =
  io_returning :: jsval
  io_hasTrigger :: jsval
  io_exception :: jsval
  io_onDuplicate :: jsval
  io_ignore :: jsval
  io_newDatabase :: bool
  io_uuid :: string

text \<open>
  \<^verbatim>\<open>modelAttributeMap[key] && modelAttributeMap[key].autoIncrement === true\<close>.
\<close>

definition isAutoIncrement :: "(string \<Rightarrow> attribute option) \<Rightarrow> string \<Rightarrow> bool" where
  "isAutoIncrement attrMap key =
     (case attrMap key of None \<Rightarrow> False | Some a \<Rightarrow> at_autoIncrement a = JBool True)"

text \<open>
  One round of the loop over the keys of the value hash. The state is the list of
  quoted fields, the list of values and \<^verbatim>\<open>identityWrapperRequired\<close>.
\<close>

definition insertStep ::
  "generator \<Rightarrow> methods \<Rightarrow> (string \<Rightarrow> attribute option) \<Rightarrow> string \<times> jsval \<Rightarrow>
   string list \<times> jsval list \<times> bool \<Rightarrow> (string list \<times> jsval list \<times> bool) result" where
  "insertStep g this attrMap kv st =
     (case st of
        (flds0, values, identityWrapperRequired) \<Rightarrow>
          (let key = fst kv; value = snd kv;
               flds = flds0 @ [quoteIdentifier g key False];
               auto = isAutoIncrement attrMap key
           in if auto \<and> \<not> truthy value then
                (if \<not> sup_autoIncrement_defaultValue (dialect_supports g)
                 then Inr (butlast flds, values, identityWrapperRequired)
                 else if sup_DEFAULT (dialect_supports g)
                 then Inr (flds, values @ [JStr ''DEFAULT''], identityWrapperRequired)
                 else bind_result (escape_m this JNull None False)
                        (\<lambda>e. Inr (flds, values @ [e], identityWrapperRequired)))
              else
                bind_result (escape_m this value (attrMap key) False)
                  (\<lambda>e. Inr (flds, values @ [e], identityWrapperRequired \<or> auto))))"

fun insertLoop ::
  "generator \<Rightarrow> methods \<Rightarrow> (string \<Rightarrow> attribute option) \<Rightarrow> (string \<times> jsval) list \<Rightarrow>
   string list \<times> jsval list \<times> bool \<Rightarrow> (string list \<times> jsval list \<times> bool) result" where
  "insertLoop g this attrMap [] st = Inr st"
| "insertLoop g this attrMap (kv # rest) st =
     bind_result (insertStep g this attrMap kv st) (insertLoop g this attrMap rest)"

text \<open>
  \<open>insertTemplates\<close> is the part of \<^verbatim>\<open>insertQuery\<close> before the loop: it builds the
  template for a row with columns (\<^verbatim>\<open>valueQuery\<close>), the template for an empty row
  (\<^verbatim>\<open>emptyQuery\<close>), the output fragment and the declaration of the temporary table.
  \<open>insertFinish\<close> is the part after the loop: the choice of the template, the
  \<^verbatim>\<open>IDENTITY_INSERT\<close> wrapper and the replacements.
\<close>

definition insertTemplates ::
  "generator \<Rightarrow> (string \<times> attribute) list option \<Rightarrow> insert_options \<Rightarrow>
   (piece list \<times> piece list \<times> jsval \<times> string) result" where
  "insertTemplates g modelAttributes options =
     (let sup = dialect_supports g;
          valueQuery0 = [V ''tmpTable'', T ''INSERT'', V ''ignore'', T '' INTO '', V ''table'',
                         T '' ('', V ''attributes'', T '')'', V ''output'', T '' VALUES ('',
                         V ''values'', T '')''];
          emptyQuery0 = [V ''tmpTable'', T ''INSERT'', V ''ignore'', T '' INTO '', V ''table'',
                         V ''output''] @
                        (if sup_DEFAULT_VALUES sup then [T '' DEFAULT VALUES'']
                         else if sup_VALUES_empty sup then [T '' VALUES ()''] else []);
          returning = (sup_returnValues sup \<noteq> None \<and> truthy (io_returning options));
          useReturning = (returning \<and> fst (the (sup_returnValues sup)));
          useOutput = (returning \<and> \<not> fst (the (sup_returnValues sup)) \<and>
                       snd (the (sup_returnValues sup)));
          useTmp = (useOutput \<and> modelAttributes \<noteq> None \<and> truthy (io_hasTrigger options) \<and>
                    sup_tmpTableTrigger sup)
      in bind_result
           (if useTmp then tmpColumns g (the modelAttributes) ([], []) else Inr ([], []))
           (\<lambda>cols.
              let tmpTable = (if useTmp
                              then trim (render [(''columns'', JStr (fst cols))]
                                     [T ''declare @tmp table ('', V ''columns'', T ''); ''])
                              else []);
                  outputFragment = (if useTmp then JStr ('' OUTPUT '' @ snd cols @ '' into @tmp'')
                                    else if useOutput then JStr '' OUTPUT INSERTED.*''
                                    else JUndefined);
                  tail1 = (if useReturning then [T '' RETURNING *'']
                           else if useTmp then [T '';select * from @tmp''] else []);
                  valueQuery1 = valueQuery0 @ tail1;
                  emptyQuery1 = emptyQuery0 @ tail1;
                  valueQuery2 =
                    (if sup_EXCEPTION sup \<and> truthy (io_exception options) then
                       (if io_newDatabase options then
                          (let delimiter = ''$func_'' @ filter (\<lambda>c. c \<noteq> CHR ''-'') (io_uuid options) @ ''$''
                           in [T ''CREATE OR REPLACE FUNCTION pg_temp.testfunc(OUT response '',
                               V ''table'',
                               T ('', OUT sequelize_caught_exception text) RETURNS RECORD AS '' @
                                  delimiter @ '' BEGIN '')] @ valueQuery1 @
                              [T ('' INTO response; EXCEPTION '' @
                                  ''WHEN unique_violation THEN GET STACKED DIAGNOSTICS sequelize_caught_exception = PG_EXCEPTION_DETAIL;'' @
                                  '' END '' @ delimiter @
                                  '' LANGUAGE plpgsql; SELECT (testfunc.response).*, testfunc.sequelize_caught_exception FROM pg_temp.testfunc(); DROP FUNCTION IF EXISTS pg_temp.testfunc()'')])
                        else
                          [T ''CREATE OR REPLACE FUNCTION pg_temp.testfunc() RETURNS SETOF '',
                           V ''table'', T '' AS $body$ BEGIN RETURN QUERY ''] @ valueQuery1 @
                          [T (''; EXCEPTION '' @ ''WHEN unique_violation THEN NULL;'' @
                              '' END; $body$ LANGUAGE plpgsql; SELECT * FROM pg_temp.testfunc(); DROP FUNCTION IF EXISTS pg_temp.testfunc();'')])
                     else valueQuery1);
                  dup = (if sup_ON_DUPLICATE_KEY sup \<and> truthy (io_onDuplicate options)
                         then [T ('' ON DUPLICATE KEY '' @ jsString (io_onDuplicate options))]
                         else [])
              in Inr (valueQuery2 @ dup, emptyQuery1 @ dup, outputFragment, tmpTable)))"



subsection \<open>updateQuery and incrementQuery\<close>


fun updateValues ::
  "generator \<Rightarrow> methods \<Rightarrow> (string \<Rightarrow> attribute option) \<Rightarrow> (string \<times> jsval) list \<Rightarrow>
   string list result" where
  "updateValues g this attrMap [] = Inr []"
| "updateValues g this attrMap ((key, value) # rest) =
     (if isAutoIncrement attrMap key \<and> \<not> sup_autoIncrement_update (dialect_supports g)
      then updateValues g this attrMap rest
      else
        bind_result (escape_m this value (attrMap key) False)
          (\<lambda>e. bind_result (updateValues g this attrMap rest)
                  (\<lambda>vs. Inr ((quoteIdentifier g key False @ ''='' @ jsString e) # vs))))"





section \<open>Ordering\<close>

text \<open>
  \<^verbatim>\<open>validateOrder\<close>, the local function of \<^verbatim>\<open>getQueryOrders\<close>: a Literal passes;
  anything else must have \<^verbatim>\<open>toUpperCase\<close> (so be a string) and, in upper case, be
  one of the eight directions.
\<close>

definition orderDirections :: "string list" where
  "orderDirections =
     [''ASC'', ''DESC'', ''ASC NULLS LAST'', ''DESC NULLS LAST'', ''ASC NULLS FIRST'',
      ''DESC NULLS FIRST'', ''NULLS FIRST'', ''NULLS LAST'']"

definition validateOrder :: "jsval \<Rightarrow> unit result" where
  "validateOrder order1 =
     (case order1 of
        Literal v \<Rightarrow> Inr ()
      | JStr s \<Rightarrow>
          (if toUpperCase s \<in> set orderDirections then Inr ()
           else Inl (InvalidOrderDirection s))
      | _ \<Rightarrow> Inl TypeError)"

text \<open>
  Whether the first element of an order item is a model, or an object whose
  \<^verbatim>\<open>model\<close> is one. Reading \<^verbatim>\<open>t[0].model\<close> fails on \<^verbatim>\<open>null\<close> and
  \<^verbatim>\<open>undefined\<close>.
\<close>

definition leadsWithModel :: "jsval \<Rightarrow> bool result" where
  "leadsWithModel t0 =
     (if isModel t0 then Inr True
      else if t0 = JNull \<or> t0 = JUndefined then Inl TypeError
      else Inr (isModel (getProp t0 ''model'')))"

text \<open>The validation that \<^verbatim>\<open>getQueryOrders\<close> applies to one element of \<^verbatim>\<open>options.order\<close>.\<close>

definition validateOrderItem :: "jsval \<Rightarrow> unit result" where
  "validateOrderItem t =
     (case t of
        JArr xs \<Rightarrow>
          (if length xs > 1 then
             bind_result (leadsWithModel (hd xs))
               (\<lambda>m. if m then
                       (if isString (xs ! (length xs - 2)) then validateOrder (last xs)
                        else Inr ())
                     else validateOrder (last xs))
           else Inr ())
      | _ \<Rightarrow> Inr ())"

text \<open>
  The loop of \<^verbatim>\<open>getQueryOrders\<close> over an array \<^verbatim>\<open>options.order\<close>; the result is
  \<^verbatim>\<open>mainQueryOrder\<close> and \<^verbatim>\<open>subQueryOrder\<close>.
\<close>

fun orderLoop ::
  "methods \<Rightarrow> jsval \<Rightarrow> bool \<Rightarrow> jsval list \<Rightarrow> (jsval list \<times> jsval list) result" where
  "orderLoop this model subQuery [] = Inr ([], [])"
| "orderLoop this model subQuery (t # ts) =
     bind_result (validateOrderItem t)
       (\<lambda>u. bind_result
          (if subQuery \<and> isArray t \<and>
              \<not> isModel (case t of JArr xs \<Rightarrow> (if xs = [] then JUndefined else hd xs) | _ \<Rightarrow> JUndefined) \<and>
              \<not> (truthy (case t of JArr xs \<Rightarrow> (if xs = [] then JUndefined else hd xs) | _ \<Rightarrow> JUndefined) \<and>
                  isModel (getProp (case t of JArr xs \<Rightarrow> (if xs = [] then JUndefined else hd xs)
                                    | _ \<Rightarrow> JUndefined) ''model''))
           then bind_result (quote_m this t model False) (\<lambda>q. Inr [q])
           else Inr [])
          (\<lambda>sub. bind_result (quote_m this t model False)
             (\<lambda>q. bind_result (orderLoop this model subQuery ts)
                (\<lambda>r. Inr (q # fst r, sub @ snd r)))))"

definition getQueryOrders ::
  "methods \<Rightarrow> jsval \<Rightarrow> jsval \<Rightarrow> bool \<Rightarrow> (jsval list \<times> jsval list) result" where
  "getQueryOrders this order1 model subQuery =
     (case order1 of
        JArr ts \<Rightarrow> orderLoop this model subQuery ts
      | JStr s \<Rightarrow> bind_result (quote_m this (Literal s) model False) (\<lambda>q. Inr ([q], []))
      | _ \<Rightarrow> bind_result (quote_m this order1 model False) (\<lambda>q. Inr ([q], [])))"

text \<open>
  The sample dialect over a schema in which every model is associated with every other
  under the alias \<^verbatim>\<open>Tasks\<close>.
\<close>

definition sampleGeneratorTasks :: generator where
  "sampleGeneratorTasks =
     sampleGenerator\<lparr>getAssociation :=
       (\<lambda>parent model as. Some \<lparr>as_as = ''Tasks'', as_through = None\<rparr>)\<rparr>"

section \<open>The SELECT planner\<close>

subsection \<open>Attributes, includes and options\<close>

text \<open>
  An element of \<^verbatim>\<open>options.attributes\<close> or of \<^verbatim>\<open>include.attributes\<close>: a name, a
  pair \<^verbatim>\<open>[name, alias]\<close>, a pair \<^verbatim>\<open>[expression, alias]\<close>, or an expression object.
  Other shapes are outside the model.
\<close>

datatype attribute_item =
    AName string
  | AAlias string string
  | AExprAlias jsval string
  | AExpr jsval

text \<open>
  What the planner reads of an association that is not a many-to-many one. Includes over
  a \<^verbatim>\<open>through\<close> table (BelongsToMany) are outside the model.
\<close>

record association =
  asc_isBelongsTo :: bool
  asc_source :: model
  asc_identifier :: string
  asc_identifierField :: string
  asc_targetIdentifier :: "string option"

datatype include_node = Include
  (inc_association: association)
  (inc_model: model)
  (inc_as: string)
  (inc_required: bool)
  (inc_subQuery: bool)
  (inc_subQueryFilter: bool)
  (inc_separate: bool)
  (inc_pseudo: bool)
  (inc_attributes: "attribute_item list")
  (inc_where: jsval)
  (inc_on: jsval)
  (inc_or: bool)
  (inc_include: "include_node list option")

text \<open>
  \<^verbatim>\<open>include.parent\<close>, as far as it is read: for a nested include the enclosing
  include, for a top-level include the options object of the query (so the model layer
  sets it). The planner walks up this chain; the model passes it down as the list of the
  ancestors, the nearest first.
\<close>

record parent_ref =
  pr_hasAssociation :: bool
  pr_model :: "model option"
  pr_as :: jsval
  pr_subQuery :: bool

record grouped_limit =
  gl_on :: string
  gl_values :: "jsval list"
  gl_limit :: jsval

text \<open>
  The options of \<^verbatim>\<open>selectQuery\<close>. \<open>so_where\<close> and \<open>so_having\<close> are \<open>None\<close> when the
  options object has no such property of its own.
\<close>

record select_options =
  so_limit :: jsval
  so_offset :: jsval
  so_subQuery :: jsval
  so_hasMultiAssociation :: jsval
  so_attributes :: "attribute_item list option"
  so_tableAs :: jsval
  so_as :: jsval
  so_model :: "model option"
  so_include :: "include_node list option"
  so_includeIgnoreAttributes :: jsval
  so_groupedLimit :: "grouped_limit option"
  so_where :: "jsval option"
  so_group :: jsval
  so_having :: "jsval option"
  so_order :: jsval
  so_lock :: jsval

definition select_defaults :: select_options where
  "select_defaults =
     \<lparr>so_limit = JUndefined, so_offset = JUndefined, so_subQuery = JUndefined,
      so_hasMultiAssociation = JUndefined, so_attributes = None, so_tableAs = JUndefined,
      so_as = JUndefined, so_model = None, so_include = None,
      so_includeIgnoreAttributes = JUndefined, so_groupedLimit = None, so_where = None,
      so_group = JUndefined, so_having = None, so_order = JUndefined, so_lock = JUndefined\<rparr>"

subsection \<open>The SELECT list\<close>

text \<open>
  The test of \<^verbatim>\<open>selectQuery\<close> for a primary key among the attributes:
  \<^verbatim>\<open>keyAtt === attr || keyAtt === attr[0] || keyAtt === attr[1]\<close>. On a name,
  \<^verbatim>\<open>attr[0]\<close> and \<^verbatim>\<open>attr[1]\<close> are its first and second character.
\<close>

definition charAt :: "string \<Rightarrow> nat \<Rightarrow> jsval" where
  "charAt s i = (if i < length s then JStr [s ! i] else JUndefined)"

fun matchesKey :: "string \<Rightarrow> attribute_item \<Rightarrow> bool" where
  "matchesKey keyAtt (AName s) =
     (keyAtt = s \<or> JStr keyAtt = charAt s 0 \<or> JStr keyAtt = charAt s 1)"
| "matchesKey keyAtt (AAlias a b) = (keyAtt = a \<or> keyAtt = b)"
| "matchesKey keyAtt (AExprAlias e b) = (keyAtt = b)"
| "matchesKey keyAtt (AExpr e) = False"

text \<open>
  \<^verbatim>\<open>!_.find(mainAttributes, ...)\<close>: nothing is found, or what is found is the
  empty name, which is falsy.
\<close>

definition keyMissing :: "string \<Rightarrow> attribute_item list \<Rightarrow> bool" where
  "keyMissing keyAtt attrs =
     (case List.find (matchesKey keyAtt) attrs of
        None \<Rightarrow> True
      | Some a \<Rightarrow> a = AName [])"

text \<open>The loop that adds the missing primary keys when a subquery is used.\<close>

fun addPrimaryKeys ::
  "model \<Rightarrow> string list \<Rightarrow> attribute_item list \<Rightarrow> attribute_item list result" where
  "addPrimaryKeys m [] attrs = Inr attrs"
| "addPrimaryKeys m (keyAtt # rest) attrs =
     (if keyMissing keyAtt attrs then
        (case map_of (md_rawAttributes m) keyAtt of
           None \<Rightarrow> Inl TypeError
         | Some a \<Rightarrow>
             addPrimaryKeys m rest
               (attrs @ [case at_field a of
                           None \<Rightarrow> AName keyAtt
                         | Some f \<Rightarrow> (if f = [] then AName keyAtt else AAlias keyAtt f)]))
      else addPrimaryKeys m rest attrs)"

text \<open>
  The escaping of one main attribute. \<open>include\<close> says whether \<^verbatim>\<open>options.include\<close>
  is set; \<^verbatim>\<open>Utils.TICK_CHAR\<close> is the backtick.
\<close>

definition escapeAttribute ::
  "generator \<Rightarrow> methods \<Rightarrow> bool \<Rightarrow> jsval \<Rightarrow> attribute_item \<Rightarrow> jsval result" where
  "escapeAttribute g this include1 mainTableAs attr =
     (let addTable = (\<lambda>s. if include1 \<and> \<not> contains s ''.''
                           then JStr (jsString mainTableAs @ ''.'' @ s) else JStr s)
      in case attr of
           AExpr e \<Rightarrow> handleSequelizeMethod_m this e JUndefined None JUndefined
         | AExprAlias e alias \<Rightarrow>
             bind_result (handleSequelizeMethod_m this e JUndefined None JUndefined)
               (\<lambda>h. Inr (JStr (jsJoin '' AS '' [h, JStr (quoteIdentifier g alias False)])))
         | AAlias a alias \<Rightarrow>
             Inr (addTable
               ((if \<not> contains a ''('' \<and> \<not> contains a '')'' then quoteIdentifier g a False else a) @
                '' AS '' @ quoteIdentifier g alias False))
         | AName s \<Rightarrow>
             Inr (addTable
               (if \<not> contains s ''`'' \<and> \<not> contains s [CHR 0x22]
                then quoteIdentifiers g s False else s)))"

definition selectFromTableFragment :: "jsval list \<Rightarrow> string \<Rightarrow> jsval \<Rightarrow> string" where
  "selectFromTableFragment attributes tables mainTableAs =
     ''SELECT '' @ jsJoin '', '' attributes @ '' FROM '' @ tables @
     (if truthy mainTableAs then '' AS '' @ jsString mainTableAs else [])"

definition addLimitAndOffset :: "methods \<Rightarrow> select_options \<Rightarrow> string result" where
  "addLimitAndOffset this options =
     (let absent = (\<lambda>v. v = JNull \<or> v = JUndefined)
      in if \<not> absent (so_offset options) \<and> absent (so_limit options) then
           bind_result (escape_m this (so_offset options) None False)
             (\<lambda>o1. Inr ('' LIMIT '' @ jsString o1 @ '', '' @ ''10000000000000''))
         else if \<not> absent (so_limit options) then
           (if \<not> absent (so_offset options) then
              bind_result (escape_m this (so_offset options) None False)
                (\<lambda>o1. bind_result (escape_m this (so_limit options) None False)
                   (\<lambda>l. Inr ('' LIMIT '' @ jsString o1 @ '', '' @ jsString l)))
            else
              bind_result (escape_m this (so_limit options) None False)
                (\<lambda>l. Inr ('' LIMIT '' @ jsString l)))
         else Inr [])"

subsection \<open>Joins for includes\<close>

text \<open>\<^verbatim>\<open>attribute.field\<close> as it reaches \<^verbatim>\<open>quoteIdentifier\<close>.\<close>

definition fieldName :: "attribute \<Rightarrow> string" where
  "fieldName a = (case at_field a of None \<Rightarrow> ''undefined'' | Some f \<Rightarrow> f)"

text \<open>
  \<^verbatim>\<open>!include.parent.association && include.parent.model.name === options.model.name\<close>,
  where \<open>m\<close> is \<^verbatim>\<open>options.model\<close>.
\<close>

definition parentIsTop :: "parent_ref \<Rightarrow> model option \<Rightarrow> bool result" where
  "parentIsTop parent m =
     (if pr_hasAssociation parent then Inr False
      else (case pr_model parent of
              None \<Rightarrow> Inl TypeError
            | Some pm \<Rightarrow>
                (case m of
                   None \<Rightarrow> Inl TypeError
                 | Some om \<Rightarrow> Inr (md_name pm = md_name om))))"

text \<open>The walk up the parents that builds \<^verbatim>\<open>asLeft\<close>.\<close>

fun asLeftPath :: "parent_ref list \<Rightarrow> jsval \<Rightarrow> jsval" where
  "asLeftPath [] asLeft = asLeft"
| "asLeftPath (p # ps) asLeft =
     (if pr_hasAssociation p
      then asLeftPath ps (if truthy asLeft then JStr (jsJoin ''.'' [pr_as p, asLeft]) else pr_as p)
      else asLeft)"

definition joinIncludeQuery ::
  "generator \<Rightarrow> methods \<Rightarrow> model option \<Rightarrow> jsval \<Rightarrow> bool \<Rightarrow> parent_ref list \<Rightarrow>
   include_node \<Rightarrow> string result" where
  "joinIncludeQuery g this mainModel subQuery groupedLimit ancestors include1 =
     (case ancestors of
        [] \<Rightarrow> Inl TypeError
      | parent # grandparents \<Rightarrow>
          bind_result (parentIsTop parent mainModel)
            (\<lambda>top.
               let association = inc_association include1;
                   left = asc_source association;
                   right = inc_model include1;
                   joinType = (if inc_required include1 then ''INNER JOIN '' else ''LEFT OUTER JOIN '')
               in bind_result
                    (if asc_isBelongsTo association
                     then Inr (asc_identifier association, asc_identifierField association)
                     else (case map_of (md_rawAttributes left) (md_primaryKeyAttribute left) of
                             None \<Rightarrow> Inl TypeError
                           | Some a \<Rightarrow> Inr (md_primaryKeyAttribute left, fieldName a)))
                    (\<lambda>l. bind_result
                       (if asc_isBelongsTo association
                        then (case map_of (md_rawAttributes right)
                                     (case asc_targetIdentifier association of
                                        None \<Rightarrow> md_primaryKeyAttribute right
                                      | Some t \<Rightarrow> (if t = [] then md_primaryKeyAttribute right else t)) of
                                None \<Rightarrow> Inl TypeError
                              | Some a \<Rightarrow> Inr (fieldName a))
                        else Inr (asc_identifierField association))
                       (\<lambda>fieldRight. bind_result
                          (let walked = asLeftPath ancestors JUndefined
                           in if truthy walked then Inr (walked, jsJoin ''.'' [walked, JStr (inc_as include1)])
                              else if truthy (pr_as parent) then Inr (pr_as parent, inc_as include1)
                              else (case pr_model parent of
                                      None \<Rightarrow> Inl TypeError
                                    | Some pm \<Rightarrow> Inr (JStr (md_name pm), inc_as include1)))
                          (\<lambda>sides. bind_result
                             (if (groupedLimit \<and> top) \<or>
                                 (truthy subQuery \<and> pr_subQuery parent \<and> \<not> inc_subQuery include1)
                              then
                                (if top then
                                   (if truthy (pr_as parent)
                                    then Inr (quoteTable g (pr_as parent) JUndefined @ ''.'' @
                                              quoteIdentifier g (fst l) False)
                                    else (case pr_model parent of
                                            None \<Rightarrow> Inl TypeError
                                          | Some pm \<Rightarrow>
                                              Inr (quoteTable g (JStr (md_name pm)) JUndefined @ ''.'' @
                                                   quoteIdentifier g (fst l) False)))
                                 else Inr (quoteIdentifier g (jsString (fst sides) @ ''.'' @ fst l) False))
                              else Inr (quoteTable g (fst sides) JUndefined @ ''.'' @
                                        quoteIdentifier g (snd l) False))
                             (\<lambda>joinOn0.
                                let asRight = snd sides;
                                    whereOptions = Some (no_options
                                      \<lparr>wo_model := Some right,
                                       wo_prefix := Literal (quoteIdentifier g asRight False)\<rparr>);
                                    joinOn1 = joinOn0 @ '' = '' @ quoteIdentifier g asRight False @
                                              ''.'' @ quoteIdentifier g fieldRight False
                                in bind_result
                                     (if truthy (inc_on include1)
                                      then bind_result
                                             (whereItemsQuery_m this (inc_on include1) whereOptions None)
                                             (\<lambda>r. Inr (snd r))
                                      else Inr joinOn1)
                                     (\<lambda>joinOn2. bind_result
                                        (if truthy (inc_where include1)
                                         then bind_result
                                                (whereItemsQuery_m this (inc_where include1)
                                                   whereOptions None)
                                                (\<lambda>r. Inr (snd r))
                                         else Inr [])
                                        (\<lambda>joinWhere.
                                           Inr (joinType @
                                                quoteTable g (md_getTableName right) (JStr asRight) @
                                                '' ON '' @ joinOn2 @
                                                (if joinWhere \<noteq> []
                                                 then (if inc_or include1 then '' OR '' else '' AND '') @
                                                      joinWhere
                                                 else []))))))))))"

text \<open>The SELECT list entry for one attribute of an include.\<close>

definition includeAttribute ::
  "generator \<Rightarrow> methods \<Rightarrow> string \<Rightarrow> attribute_item \<Rightarrow> jsval result" where
  "includeAttribute g this as attr =
     (let plain = (\<lambda>a attrAs. Inr (JStr (quoteIdentifier g as False @ ''.'' @ quoteIdentifier g a False @
                                          '' AS '' @ quoteIdentifier g (as @ ''.'' @ attrAs) True)))
      in case attr of
           AName a \<Rightarrow> plain a a
         | AAlias a attrAs \<Rightarrow> plain a attrAs
         | AExprAlias e attrAs \<Rightarrow>
             bind_result (handleSequelizeMethod_m this e JUndefined None JUndefined)
               (\<lambda>h. Inr (JStr
                  ((if isLiteral e \<or> isFn e \<or> (case e of Cast v t \<Rightarrow> True | _ \<Rightarrow> False)
                    then jsString h
                    else quoteIdentifier g as False @ ''.'' @ quoteIdentifier g (jsString h) False) @
                   '' AS '' @ quoteIdentifier g (as @ ''.'' @ attrAs) True)))
         | AExpr e \<Rightarrow>
             (case e of
                Literal val \<Rightarrow> Inr (JStr val)
              | Cast v t \<Rightarrow> Inl MissingAliasForComputedAttribute
              | Fn f args \<Rightarrow> Inl MissingAliasForComputedAttribute
              | _ \<Rightarrow> plain (jsString e) (jsString e)))"

text \<open>
  What a walk over the include tree carries along: the main SELECT list, the SELECT list
  of the subquery, and \<^verbatim>\<open>options.where\<close>, which an include with
  \<^verbatim>\<open>subQueryFilter\<close> extends.
\<close>

record join_state =
  js_mainAttributes :: "jsval list"
  js_subQueryAttributes :: "jsval list"
  js_where :: "jsval option"

text \<open>
  What stays fixed during the walk: the arguments of \<^verbatim>\<open>selectQuery\<close>, the quoted
  main table alias, whether a subquery is used, and \<open>sc_select\<close>, the method
  \<^verbatim>\<open>this.selectQuery\<close> for the nested statements.
\<close>

record select_context =
  sc_tableName :: jsval
  sc_options :: select_options
  sc_mainModel :: "model option"
  sc_mainTableAs :: jsval
  sc_subQuery :: bool
  sc_select :: "jsval \<Rightarrow> select_options \<Rightarrow> model option \<Rightarrow> (select_options \<times> string) result"

text \<open>
  The filter that an include with \<^verbatim>\<open>subQueryFilter\<close> attaches to the WHERE of a
  subquery: a nested SELECT of at most one row, stripped of its semicolon, in parentheses,
  \<^verbatim>\<open>IS NOT NULL\<close>. \<^verbatim>\<open>sequelize.asIs\<close> is taken to make a Literal.
\<close>

definition subQueryFilterWhere ::
  "generator \<Rightarrow> select_context \<Rightarrow> jsval \<Rightarrow> string \<Rightarrow> include_node \<Rightarrow> jsval option \<Rightarrow>
   jsval option result" where
  "subQueryFilterWhere g ctx parentTable as include1 where0 =
     (let association = inc_association include1;
          associationWhere =
            JObj [(asc_identifierField association,
                   JObj [(''$raw'', JStr (quoteTable g parentTable JUndefined @ ''.'' @
                      quoteIdentifier g (md_primaryKeyField (asc_source association)) False))])];
          where1 = (case where0 of
                      None \<Rightarrow> JObj []
                    | Some w \<Rightarrow> (if truthy w then w else JObj []))
      in bind_result
           (sc_select ctx (md_getTableName (inc_model include1))
              (select_defaults
                 \<lparr>so_attributes := Some [AName (asc_identifierField association)],
                  so_where := Some (JObj [(''$and'',
                     JArr [associationWhere,
                           if truthy (inc_where include1) then inc_where include1 else JObj []])]),
                  so_limit := JNum 1\<rparr>)
              (Some (inc_model include1)))
           (\<lambda>r.
              let subQueryWhere = Literal (join '' '' [''('', stripSemicolon (snd r), '')'', ''IS NOT NULL''])
              in Inr (Some (case where1 of
                              JObj kvs \<Rightarrow> JObj (objSet kvs (''__'' @ as) subQueryWhere)
                            | _ \<Rightarrow> JObj [(''$and'', JArr [where1, subQueryWhere])]))))"

fun generateJoinQueries ::
  "generator \<Rightarrow> methods \<Rightarrow> select_context \<Rightarrow> parent_ref list \<Rightarrow> jsval \<Rightarrow> include_node \<Rightarrow>
   join_state \<Rightarrow> ((string list \<times> string list) \<times> join_state) result"
  and generateChildJoins ::
  "generator \<Rightarrow> methods \<Rightarrow> select_context \<Rightarrow> parent_ref list \<Rightarrow> jsval \<Rightarrow>
   include_node list \<Rightarrow> (string list \<times> string list) \<Rightarrow> join_state \<Rightarrow>
   ((string list \<times> string list) \<times> join_state) result" where
  "generateJoinQueries g this ctx ancestors parentTable
     (Include association m as0 required subQ subQueryFilter separate pseudo attrs where1 on1 or1
        children) st =
     (let include1 = Include association m as0 required subQ subQueryFilter separate pseudo attrs
                       where1 on1 or1 children;
          options = sc_options ctx;
          as = (if sc_tableName ctx \<noteq> parentTable \<and> sc_mainTableAs ctx \<noteq> parentTable
                then jsString parentTable @ ''.'' @ as0 else as0)
      in bind_result
           (case ancestors of
              [] \<Rightarrow> Inl TypeError
            | parent # grandparents \<Rightarrow> parentIsTop parent (so_model options))
           (\<lambda>top. bind_result
              (if so_includeIgnoreAttributes options \<noteq> JBool False
               then bind_result (mapR (includeAttribute g this as) attrs)
                      (\<lambda>attributes.
                         if subQ \<and> sc_subQuery ctx
                         then Inr (st\<lparr>js_subQueryAttributes := js_subQueryAttributes st @ attributes\<rparr>)
                         else Inr (st\<lparr>js_mainAttributes := js_mainAttributes st @ attributes\<rparr>))
               else Inr st)
              (\<lambda>st1. bind_result
                 (if sc_subQuery ctx \<and> subQueryFilter
                  then bind_result (subQueryFilterWhere g ctx parentTable as include1 (js_where st1))
                         (\<lambda>w. Inr (st1\<lparr>js_where := w\<rparr>))
                  else Inr st1)
                 (\<lambda>st2. bind_result
                    (joinIncludeQuery g this (sc_mainModel ctx) (so_subQuery options)
                       (so_groupedLimit options \<noteq> None) ancestors include1)
                    (\<lambda>j.
                       let joinQueries = (if subQ \<and> sc_subQuery ctx
                                          then ([], ['' '' @ j]) else (['' '' @ j], []))
                       in case children of
                            None \<Rightarrow> Inr (joinQueries, st2)
                          | Some cs \<Rightarrow>
                              generateChildJoins g this ctx
                                (\<lparr>pr_hasAssociation = True, pr_model = Some m, pr_as = JStr as0,
                                  pr_subQuery = subQ\<rparr> # ancestors)
                                (JStr as) cs joinQueries st2)))))"
| "generateChildJoins g this ctx ancestors as [] joinQueries st = Inr (joinQueries, st)"
| "generateChildJoins g this ctx ancestors as (child # rest) joinQueries st =
     (if inc_separate child \<or> inc_pseudo child
      then generateChildJoins g this ctx ancestors as rest joinQueries st
      else
        bind_result (generateJoinQueries g this ctx ancestors as child st)
          (\<lambda>r. generateChildJoins g this ctx ancestors as rest
                  (fst joinQueries @ fst (fst r),
                   if inc_subQuery child \<and> sc_subQuery ctx
                   then snd joinQueries @ snd (fst r) else snd joinQueries)
                  (snd r)))"

subsection \<open>selectQuery\<close>

text \<open>\<^verbatim>\<open>xs[i]\<close> on an array.\<close>

definition arrGet :: "jsval list \<Rightarrow> nat \<Rightarrow> jsval" where
  "arrGet xs i = (if i < length xs then xs ! i else JUndefined)"

text \<open>
  \<^verbatim>\<open>options.subQuery === undefined ? limit && options.hasMultiAssociation : options.subQuery\<close>
\<close>

definition selectSubQuery :: "select_options \<Rightarrow> jsval" where
  "selectSubQuery options =
     (if so_subQuery options = JUndefined
      then (if truthy (so_limit options) then so_hasMultiAssociation options else so_limit options)
      else so_subQuery options)"

definition selectMainTableAs :: "generator \<Rightarrow> jsval \<Rightarrow> select_options \<Rightarrow> model option \<Rightarrow> jsval" where
  "selectMainTableAs g tableName options model =
     (if truthy (so_tableAs options) then JStr (quoteTable g (so_tableAs options) JUndefined)
      else if \<not> isArray tableName \<and> model \<noteq> None then JStr (quoteTable g tableName JUndefined)
      else JNull)"

definition selectTable :: "generator \<Rightarrow> jsval \<Rightarrow> string" where
  "selectTable g tableName =
     (case tableName of
        JArr ts \<Rightarrow>
          join '', ''
            (map (\<lambda>t. case t of
                         JArr us \<Rightarrow> quoteTable g (arrGet us 0) (arrGet us 1)
                       | _ \<Rightarrow> quoteTable g t (JBool True)) ts)
      | _ \<Rightarrow> quoteTable g tableName JUndefined)"

text \<open>
  The main attributes after the primary keys are added and every attribute is escaped;
  \<open>None\<close> when \<^verbatim>\<open>options.attributes\<close> is not set.
\<close>

definition selectAttributes ::
  "generator \<Rightarrow> methods \<Rightarrow> select_options \<Rightarrow> model option \<Rightarrow> bool \<Rightarrow> jsval \<Rightarrow>
   jsval list option result" where
  "selectAttributes g this options model subQuery mainTableAs =
     (case so_attributes options of
        None \<Rightarrow> Inr None
      | Some attrs \<Rightarrow>
          bind_result
            (if subQuery then
               (case model of
                  None \<Rightarrow> Inl TypeError
                | Some m \<Rightarrow> addPrimaryKeys m (md_primaryKeyAttributes m) attrs)
             else Inr attrs)
            (\<lambda>withKeys.
               bind_result (mapR (escapeAttribute g this (so_include options \<noteq> None) mainTableAs) withKeys)
                 (\<lambda>escaped. Inr (Some escaped))))"

text \<open>
  The loop over \<^verbatim>\<open>options.include\<close>. The parent of a top-level include is the options
  object itself.
\<close>

definition rootParent :: "select_options \<Rightarrow> parent_ref" where
  "rootParent options =
     \<lparr>pr_hasAssociation = False, pr_model = so_model options, pr_as = so_as options,
      pr_subQuery = truthy (so_subQuery options)\<rparr>"

fun includeLoop ::
  "generator \<Rightarrow> methods \<Rightarrow> select_context \<Rightarrow> include_node list \<Rightarrow> (string list \<times> string list) \<Rightarrow>
   join_state \<Rightarrow> ((string list \<times> string list) \<times> join_state) result" where
  "includeLoop g this ctx [] joinQueries st = Inr (joinQueries, st)"
| "includeLoop g this ctx (include1 # rest) joinQueries st =
     (if inc_separate include1 then includeLoop g this ctx rest joinQueries st
      else
        bind_result
          (generateJoinQueries g this ctx [rootParent (sc_options ctx)] (sc_mainTableAs ctx) include1 st)
          (\<lambda>r. includeLoop g this ctx rest
                  (fst joinQueries @ fst (fst r), snd joinQueries @ snd (fst r)) (snd r)))"

text \<open>
  \<^verbatim>\<open>_.assign({}, options.where)\<close>: the own enumerable properties of the where. Those of
  an expression object, a date or a model are outside the sources; such a where is copied
  as the empty object.
\<close>

definition assignWhere :: "jsval option \<Rightarrow> (string \<times> jsval) list" where
  "assignWhere w =
     (case w of
        Some (JObj kvs) \<Rightarrow> kvs
      | Some (JArr xs) \<Rightarrow> zip (map showNat [0..<length xs]) xs
      | Some (JStr s) \<Rightarrow> zip (map showNat [0..<length s]) (map (\<lambda>c. JStr [c]) s)
      | _ \<Rightarrow> [])"

text \<open>
  The table expression of a grouped limit: one sub-select per value, each with
  \<^verbatim>\<open>where[on] = value\<close>, stripped of its semicolon and parenthesised.
\<close>

definition groupedLimitSelect ::
  "(jsval \<Rightarrow> select_options \<Rightarrow> model option \<Rightarrow> (select_options \<times> string) result) \<Rightarrow>
   string \<Rightarrow> select_options \<Rightarrow> jsval option \<Rightarrow> model option \<Rightarrow> grouped_limit \<Rightarrow> jsval \<Rightarrow>
   string result" where
  "groupedLimitSelect sel table options where1 model gl v =
     bind_result
       (sel (JStr table)
          (select_defaults
             \<lparr>so_attributes := so_attributes options,
              so_limit := gl_limit gl,
              so_order := so_order options,
              so_where := Some (JObj (objSet (assignWhere where1) (gl_on gl) v))\<rparr>)
          model)
       (\<lambda>r. Inr (''('' @ stripSemicolon (snd r) @ '')''))"

definition groupedLimitTables ::
  "generator \<Rightarrow>
   (jsval \<Rightarrow> select_options \<Rightarrow> model option \<Rightarrow> (select_options \<times> string) result) \<Rightarrow>
   string \<Rightarrow> select_options \<Rightarrow> jsval option \<Rightarrow> model option \<Rightarrow> grouped_limit \<Rightarrow> string result" where
  "groupedLimitTables g sel table options where1 model gl =
     bind_result (mapR (groupedLimitSelect sel table options where1 model gl) (gl_values gl))
       (\<lambda>selects.
          Inr (''('' @
               join (if sup_UNION_ALL (dialect_supports g) then '' UNION ALL '' else '' UNION '') selects @
               '')''))"

text \<open>The state of the assembly: the options and the two lists of query items.\<close>

record select_state =
  ss_options :: select_options
  ss_mainQueryItems :: "string list"
  ss_subQueryItems :: "string list"

definition selectWhere ::
  "methods \<Rightarrow> jsval \<Rightarrow> model option \<Rightarrow> jsval \<Rightarrow> string \<Rightarrow> jsval list \<Rightarrow> bool \<Rightarrow> select_state \<Rightarrow>
   select_state result" where
  "selectWhere this tableName model mainTableAs table mainAttributes subQuery st =
     (case so_where (ss_options st) of
        None \<Rightarrow> Inr st
      | Some w \<Rightarrow>
          (if so_groupedLimit (ss_options st) \<noteq> None then Inr st
           else
             bind_result (getWhereConditions_m this w (jsOr mainTableAs tableName) model JUndefined)
               (\<lambda>c. let st1 = st\<lparr>ss_options := (ss_options st)\<lparr>so_where := Some c\<rparr>\<rparr>
                     in if truthy c then
                          (if subQuery
                           then Inr (st1\<lparr>ss_subQueryItems :=
                                  ss_subQueryItems st @ ['' WHERE '' @ jsString c]\<rparr>)
                           else Inr (st1\<lparr>ss_mainQueryItems :=
                                  map (\<lambda>v. if take 6 v = ''SELECT''
                                            then selectFromTableFragment mainAttributes table mainTableAs
                                            else v)
                                    (ss_mainQueryItems st @ ['' WHERE '' @ jsString c])\<rparr>))
                        else Inr st1)))"

definition pushItem :: "bool \<Rightarrow> string \<Rightarrow> select_state \<Rightarrow> select_state" where
  "pushItem subQuery item st =
     (if subQuery then st\<lparr>ss_subQueryItems := ss_subQueryItems st @ [item]\<rparr>
      else st\<lparr>ss_mainQueryItems := ss_mainQueryItems st @ [item]\<rparr>)"

definition selectGroup ::
  "methods \<Rightarrow> model option \<Rightarrow> bool \<Rightarrow> select_state \<Rightarrow> select_state result" where
  "selectGroup this model subQuery st =
     (let grp = so_group (ss_options st)
      in if truthy grp then
           bind_result
             (case grp of
                JArr ts \<Rightarrow>
                  bind_result (mapR (\<lambda>t. quote_m this t (modelRef model) False) ts)
                    (\<lambda>qs. Inr (JStr (jsJoin '', '' qs)))
              | _ \<Rightarrow> Inr grp)
             (\<lambda>grp1. Inr (pushItem subQuery ('' GROUP BY '' @ jsString grp1)
                             (st\<lparr>ss_options := (ss_options st)\<lparr>so_group := grp1\<rparr>\<rparr>)))
         else Inr st)"

definition selectHaving ::
  "methods \<Rightarrow> jsval \<Rightarrow> model option \<Rightarrow> bool \<Rightarrow> select_state \<Rightarrow> select_state result" where
  "selectHaving this tableName model subQuery st =
     (case so_having (ss_options st) of
        None \<Rightarrow> Inr st
      | Some h \<Rightarrow>
          bind_result (getWhereConditions_m this h tableName model (JBool False))
            (\<lambda>c. Inr (pushItem subQuery ('' HAVING '' @ jsString c)
                         (st\<lparr>ss_options := (ss_options st)\<lparr>so_having := Some c\<rparr>\<rparr>))))"

definition selectOrder ::
  "methods \<Rightarrow> model option \<Rightarrow> bool \<Rightarrow> select_state \<Rightarrow> select_state result" where
  "selectOrder this model subQuery st =
     (if truthy (so_order (ss_options st)) \<and> so_groupedLimit (ss_options st) = None then
        bind_result (getQueryOrders this (so_order (ss_options st)) (modelRef model) subQuery)
          (\<lambda>orders.
             Inr (st\<lparr>ss_mainQueryItems :=
                        ss_mainQueryItems st @
                        (if fst orders \<noteq> [] then ['' ORDER BY '' @ jsJoin '', '' (fst orders)] else []),
                      ss_subQueryItems :=
                        ss_subQueryItems st @
                        (if snd orders \<noteq> [] then ['' ORDER BY '' @ jsJoin '', '' (snd orders)] else [])\<rparr>))
      else Inr st)"

definition selectLimit :: "methods \<Rightarrow> bool \<Rightarrow> select_state \<Rightarrow> select_state result" where
  "selectLimit this subQuery st =
     bind_result (addLimitAndOffset this (ss_options st))
       (\<lambda>limitOrder.
          if limitOrder \<noteq> [] \<and> so_groupedLimit (ss_options st) = None
          then Inr (pushItem subQuery limitOrder st) else Inr st)"

definition selectLock :: "generator \<Rightarrow> select_options \<Rightarrow> string" where
  "selectLock g options =
     (let sup = dialect_supports g;
          lock0 = so_lock options;
          lock = (if isObject lock0 \<and> \<not> isModel lock0 then getProp lock0 ''level'' else lock0)
      in if truthy lock0 \<and> sup_lock sup then
           (if sup_lockKey sup \<and> (lock = JStr ''KEY SHARE'' \<or> lock = JStr ''NO KEY UPDATE'')
            then '' FOR '' @ jsString lock
            else if lock = JStr ''SHARE'' then '' '' @ sup_forShare sup
            else '' FOR UPDATE'') @
           (case getProp lock0 ''of'' of
              JModel name tbl \<Rightarrow>
                (if sup_lockOf sup then '' OF '' @ quoteTable g (JStr name) JUndefined else [])
            | _ \<Rightarrow> [])
         else [])"

text \<open>
  The part of \<^verbatim>\<open>selectQuery\<close> up to the FROM clause: the two SELECT lists and the
  joins, with \<^verbatim>\<open>options.where\<close> as the includes leave it.
\<close>

record select_plan =
  sp_mainAttributes :: "jsval list"
  sp_subQueryAttributes :: "jsval list"
  sp_mainJoinQueries :: "string list"
  sp_subJoinQueries :: "string list"
  sp_where :: "jsval option"

definition selectPlan ::
  "generator \<Rightarrow> methods \<Rightarrow>
   (jsval \<Rightarrow> select_options \<Rightarrow> model option \<Rightarrow> (select_options \<times> string) result) \<Rightarrow>
   jsval \<Rightarrow> select_options \<Rightarrow> model option \<Rightarrow> select_plan result" where
  "selectPlan g this sel tableName options model =
     (let subQuery = truthy (selectSubQuery options);
          mainTableAs = selectMainTableAs g tableName options model;
          table = selectTable g tableName
      in bind_result (selectAttributes g this options model subQuery mainTableAs)
           (\<lambda>escaped.
              let attrs0 = (case escaped of
                              Some xs \<Rightarrow> xs
                            | None \<Rightarrow> (if so_include options \<noteq> None
                                       then [JStr (jsString mainTableAs @ ''.*'')]
                                       else [JStr ''*'']));
                  wrapped = (subQuery \<or> so_groupedLimit options \<noteq> None);
                  st0 = \<lparr>js_mainAttributes =
                            (if wrapped
                             then [JStr (jsString (jsOr mainTableAs (JStr table)) @ ''.*'')]
                             else attrs0),
                         js_subQueryAttributes = (if wrapped then attrs0 else []),
                         js_where = so_where options\<rparr>
              in bind_result
                   (case so_include options of
                      None \<Rightarrow> Inr (([], []), st0)
                    | Some includes \<Rightarrow>
                        includeLoop g this
                          \<lparr>sc_tableName = tableName, sc_options = options, sc_mainModel = model,
                           sc_mainTableAs = mainTableAs, sc_subQuery = subQuery, sc_select = sel\<rparr>
                          includes ([], []) st0)
                   (\<lambda>r. Inr \<lparr>sp_mainAttributes = js_mainAttributes (snd r),
                              sp_subQueryAttributes = js_subQueryAttributes (snd r),
                              sp_mainJoinQueries = fst (fst r),
                              sp_subJoinQueries = snd (fst r),
                              sp_where = js_where (snd r)\<rparr>)))"

text \<open>The first query items: the SELECT ... FROM fragment and the joins.\<close>

definition selectFrom ::
  "generator \<Rightarrow>
   (jsval \<Rightarrow> select_options \<Rightarrow> model option \<Rightarrow> (select_options \<times> string) result) \<Rightarrow>
   jsval \<Rightarrow> select_options \<Rightarrow> model option \<Rightarrow> select_plan \<Rightarrow> select_state result" where
  "selectFrom g sel tableName options model plan =
     (let mainTableAs = selectMainTableAs g tableName options model;
          table = selectTable g tableName;
          options1 = options\<lparr>so_where := sp_where plan\<rparr>
      in if truthy (selectSubQuery options) then
           Inr \<lparr>ss_options = options1, ss_mainQueryItems = [],
                ss_subQueryItems =
                  [selectFromTableFragment (sp_subQueryAttributes plan) table mainTableAs,
                   join [] (sp_subJoinQueries plan)]\<rparr>
         else
           (case so_groupedLimit options of
              Some gl \<Rightarrow>
                bind_result (groupedLimitTables g sel table options (sp_where plan) model gl)
                  (\<lambda>tables.
                     Inr \<lparr>ss_options = options1,
                          ss_mainQueryItems =
                            [selectFromTableFragment (sp_mainAttributes plan) tables
                               (if truthy mainTableAs then mainTableAs else JStr table),
                             join [] (sp_mainJoinQueries plan)],
                          ss_subQueryItems = []\<rparr>)
            | None \<Rightarrow>
                Inr \<lparr>ss_options = options1,
                     ss_mainQueryItems =
                       [selectFromTableFragment (sp_mainAttributes plan) table mainTableAs,
                        join [] (sp_mainJoinQueries plan)],
                     ss_subQueryItems = []\<rparr>))"

text \<open>The last step: the wrapping of the subquery, the lock and the semicolon.\<close>

definition selectFinish ::
  "generator \<Rightarrow> jsval \<Rightarrow> select_options \<Rightarrow> model option \<Rightarrow> select_plan \<Rightarrow> select_state \<Rightarrow>
   string" where
  "selectFinish g tableName options model plan st =
     (if truthy (selectSubQuery options)
      then ''SELECT '' @ jsJoin '', '' (sp_mainAttributes plan) @ '' FROM ('' @
           join [] (ss_subQueryItems st) @ '') AS '' @
           jsString (selectMainTableAs g tableName options model) @
           join [] (sp_mainJoinQueries plan) @ join [] (ss_mainQueryItems st)
      else join [] (ss_mainQueryItems st)) @
     selectLock g (ss_options st) @ '';''"

text \<open>
  \<^verbatim>\<open>selectQuery\<close>, with \<open>sel\<close> for its own calls of \<^verbatim>\<open>this.selectQuery\<close>. It assigns to
  \<^verbatim>\<open>options.where\<close>, \<^verbatim>\<open>options.group\<close> and \<^verbatim>\<open>options.having\<close>; the options as the
  caller finds them afterwards are returned next to the query.
\<close>

definition selectQueryWith ::
  "generator \<Rightarrow> methods \<Rightarrow>
   (jsval \<Rightarrow> select_options \<Rightarrow> model option \<Rightarrow> (select_options \<times> string) result) \<Rightarrow>
   jsval \<Rightarrow> select_options \<Rightarrow> model option \<Rightarrow> (select_options \<times> string) result" where
  "selectQueryWith g this sel tableName options model =
     (let subQuery = truthy (selectSubQuery options);
          mainTableAs = selectMainTableAs g tableName options model;
          table = selectTable g tableName
      in bind_result (selectPlan g this sel tableName options model)
           (\<lambda>plan. bind_result (selectFrom g sel tableName options model plan)
              (\<lambda>st0. bind_result
                 (selectWhere this tableName model mainTableAs table (sp_mainAttributes plan)
                    subQuery st0)
                 (\<lambda>st1. bind_result (selectGroup this model subQuery st1)
                    (\<lambda>st2. bind_result (selectHaving this tableName model subQuery st2)
                       (\<lambda>st3. bind_result (selectOrder this model subQuery st3)
                          (\<lambda>st4. bind_result (selectLimit this subQuery st4)
                             (\<lambda>st5. Inr (ss_options st5,
                                          selectFinish g tableName options model plan st5)))))))))"

text \<open>
  The knot for \<^verbatim>\<open>this.selectQuery\<close>: \<open>n\<close> bounds the nesting of the statements and of
  the conditions.
\<close>

primrec selectQueryFuel ::
  "generator \<Rightarrow> nat \<Rightarrow> jsval \<Rightarrow> select_options \<Rightarrow> model option \<Rightarrow>
   (select_options \<times> string) result" where
  "selectQueryFuel g 0 = (\<lambda>tableName options model. Inl OutOfFuel)"
| "selectQueryFuel g (Suc n) =
     selectQueryWith g (queryGenerator g (Suc n)) (selectQueryFuel g n)"

definition selectQuery ::
  "generator \<Rightarrow> nat \<Rightarrow> jsval \<Rightarrow> select_options \<Rightarrow> model option \<Rightarrow> string result" where
  "selectQuery g n tableName options model =
     bind_result (selectQueryFuel g n tableName options model) (\<lambda>r. Inr (snd r))"

section \<open>Properties\<close>

subsection \<open>Helper lemmas\<close>

lemma bind_result_simps [simp]:
  "bind_result (Inl e) f = Inl e"
  "bind_result (Inr x) f = f x"
  by (simp_all add: bind_result_def)

text \<open>
  The method table is read one method at a time; unfolding the whole table would copy
  it into each of its own entries.
\<close>

lemma queryGenerator_Suc [simp]:
  "escape_m (queryGenerator g (Suc n)) = escape g (queryGenerator g n)"
  "handleSequelizeMethod_m (queryGenerator g (Suc n)) = handleSequelizeMethod g (queryGenerator g n)"
  "getWhereConditions_m (queryGenerator g (Suc n)) = getWhereConditions g (queryGenerator g n)"
  "whereItemsQuery_m (queryGenerator g (Suc n)) = whereItemsQuery g (queryGenerator g n)"
  "whereItemQuery_m (queryGenerator g (Suc n)) = whereItemQuery g (queryGenerator g n)"
  "quote_m (queryGenerator g (Suc n)) = quote g (queryGenerator g n)"
  by simp_all

lemma queryGenerator_0 [simp]:
  "escape_m (queryGenerator g 0) = (\<lambda>value field isList. Inl OutOfFuel)"
  "handleSequelizeMethod_m (queryGenerator g 0) = (\<lambda>smth tableName factory prepend. Inl OutOfFuel)"
  "getWhereConditions_m (queryGenerator g 0) = (\<lambda>smth tableName factory prepend. Inl OutOfFuel)"
  "whereItemsQuery_m (queryGenerator g 0) = (\<lambda>where1 options binding. Inl OutOfFuel)"
  "whereItemQuery_m (queryGenerator g 0) = (\<lambda>key value options. Inl OutOfFuel)"
  "quote_m (queryGenerator g 0) = (\<lambda>obj parent force. Inl OutOfFuel)"
  by simp_all

declare queryGenerator.simps [simp del]

lemma mapR_append:
  "mapR f (xs @ ys) =
     (case mapR f xs of
        Inl e \<Rightarrow> Inl e
      | Inr as \<Rightarrow> (case mapR f ys of Inl e \<Rightarrow> Inl e | Inr bs \<Rightarrow> Inr (as @ bs)))"
  by (induction xs) (auto split: sum.splits)

lemma jsonHead_nodot: "\<not> contains k ''.'' \<Longrightarrow> jsonHead options (JStr k) = None"
  by (simp add: jsonHead_def split: option.splits)

lemma whereItemQuery_group_empty:
  assumes "key = ''$or'' \<or> key = ''$and'' \<or> key = ''$not''"
  shows "whereItemQuery g this (JStr key) (JArr []) opts =
         Inr (JArr [], if key = ''$and'' then JUndefined else JStr ''0 = 1'')"
  using assms
  by (auto simp add: whereItemQuery_def jsonHead_nodot aliasKey_def aliasMap_def aliasList_def
      aliasRewrite_def whereItemBody_def whereItemCore_def whereGroup_def Let_def)

subsection \<open>Empty combinator lists\<close>

text \<open>
  C4. For every options object and every binding, \<^verbatim>\<open>whereItemsQuery({$or: []})\<close> and
  \<^verbatim>\<open>whereItemsQuery({$not: []})\<close> return \<^verbatim>\<open>0 = 1\<close>, and an entry \<^verbatim>\<open>$and: []\<close>
  contributes nothing: a condition mapping with such an entry, at any place among its
  entries, compiles to the same string (or fails with the same error) as the mapping
  without it. The generator may be any dialect, with any recursion budget of at least one
  nested call.
\<close>

theorem empty_combinators:
  "whereItemsQuery g (queryGenerator g (Suc n)) (JObj [(''$or'', JArr [])]) opts b =
     Inr (JObj [(''$or'', JArr [])], ''0 = 1'') \<and>
   whereItemsQuery g (queryGenerator g (Suc n)) (JObj [(''$not'', JArr [])]) opts b =
     Inr (JObj [(''$not'', JArr [])], ''0 = 1'') \<and>
   map_sum id snd
     (whereItemsQuery g (queryGenerator g (Suc n))
        (JObj (pre @ (''$and'', JArr []) # post)) opts b) =
   map_sum id snd
     (whereItemsQuery g (queryGenerator g (Suc n)) (JObj (pre @ post)) opts b)"
proof (intro conjI)
  show "whereItemsQuery g (queryGenerator g (Suc n)) (JObj [(''$or'', JArr [])]) opts b =
        Inr (JObj [(''$or'', JArr [])], ''0 = 1'')"
    by (simp add: whereItemsQuery_def whereItemQuery_group_empty Let_def)
  show "whereItemsQuery g (queryGenerator g (Suc n)) (JObj [(''$not'', JArr [])]) opts b =
        Inr (JObj [(''$not'', JArr [])], ''0 = 1'')"
    by (simp add: whereItemsQuery_def whereItemQuery_group_empty Let_def)
  show "map_sum id snd
          (whereItemsQuery g (queryGenerator g (Suc n))
             (JObj (pre @ (''$and'', JArr []) # post)) opts b) =
        map_sum id snd
          (whereItemsQuery g (queryGenerator g (Suc n)) (JObj (pre @ post)) opts b)"
  proof (cases "pre @ post = []")
    case True
    then show ?thesis
      by (simp add: whereItemsQuery_def whereItemQuery_group_empty Let_def)
  next
    case False
    then show ?thesis
      by (simp add: whereItemsQuery_def whereItemQuery_group_empty Let_def mapR_append
          split: sum.splits)
  qed
qed

theorem empty_combinators_witness:
  "whereItemsQuery sampleGenerator (queryGenerator sampleGenerator 1)
     (JObj [(''$or'', JArr [])]) None None = Inr (JObj [(''$or'', JArr [])], ''0 = 1'') \<and>
   whereItemsQuery sampleGenerator (queryGenerator sampleGenerator 1)
     (JObj [(''$not'', JArr [])]) None None = Inr (JObj [(''$not'', JArr [])], ''0 = 1'') \<and>
   map_sum id snd
     (whereItemsQuery sampleGenerator (queryGenerator sampleGenerator 1)
        (JObj [(''$and'', JArr [])]) None None) = Inr []"
  using empty_combinators [of sampleGenerator 0 None None "[]" "[]"]
  by (simp add: whereItemsQuery_def)

lemma alias_targets:
  "\<forall>c \<in> set (map snd aliasList). aliasMap c = None \<and> \<not> contains c ''.''"
  by (simp add: aliasMap_def aliasList_def)

lemma aliasMap_canonical: "aliasMap k = Some c \<Longrightarrow> aliasMap c = None \<and> \<not> contains c ''.''"
proof -
  assume "aliasMap k = Some c"
  then have "(k, c) \<in> set aliasList" by (simp add: aliasMap_def map_of_SomeD)
  then have "c \<in> set (map snd aliasList)" by force
  with alias_targets show ?thesis by blast
qed

lemma aliasKey_str: "\<exists>c. aliasKey (JStr k) = JStr c"
  by (simp add: aliasKey_def split: option.splits)


lemma jsonHead_json [simp]: "jsonHead (options\<lparr>wo_json := b\<rparr>) key = jsonHead options key"
  by (cases key) (simp_all add: jsonHead_def)



lemma hsm_literal [simp]:
  "handleSequelizeMethod g this (Literal p) t f pre = Inr (JStr p)"
  by (simp add: handleSequelizeMethod_def)


lemma emitKey_json [simp]:
  "emitKey g this key (options\<lparr>wo_json := b\<rparr>) cmp v = emitKey g this key options cmp v"
  by (simp add: emitKey_def cong: if_cong)


lemma aliasRewrite_in [simp]:
  "aliasRewrite (JObj [(''$in'', x)]) = JObj [(''$in'', x)]"
  "aliasRewrite (JObj [(''$notIn'', x)]) = JObj [(''$notIn'', x)]"
  by (simp_all add: aliasRewrite_def aliasStep_def aliasMap_def aliasList_def)









subsection \<open>Empty and literal arguments of IN\<close>



subsection \<open>Legacy operator spellings\<close>





lemma aliasMap_neq: "aliasMap a = Some c \<Longrightarrow> a \<noteq> c"
  using aliasMap_canonical by force









subsection \<open>RETURNING in incrementQuery and updateQuery\<close>


lemma quoteTable_returnValues [simp]:
  "quoteTable (g\<lparr>dialect_supports := (dialect_supports g)\<lparr>sup_returnValues := rv\<rparr>\<rparr>) = quoteTable g"
  by (intro ext) (simp add: quoteTable_def cong: if_cong)

lemma whereQuery_supports [simp]:
  "whereQuery (g\<lparr>dialect_supports := x\<rparr>) this w opts = whereQuery g this w opts"
  by (simp add: whereQuery_def)



lemma updateValues_returnValues [simp]:
  "updateValues (g\<lparr>dialect_supports := (dialect_supports g)\<lparr>sup_returnValues := rv\<rparr>\<rparr>) this m h =
   updateValues g this m h"
  by (induction h) (auto)




lemma isSpace_U [simp]: "\<not> isSpace CHR ''U''" "\<not> isSpace CHR ''*''"
  by (simp_all add: isSpace_def)






subsection \<open>Auto-increment columns in insertQuery\<close>





lemma quoteTable_identity [simp]:
  "quoteTable (g\<lparr>dialect_supports := (dialect_supports g)\<lparr>sup_autoIncrement_identityInsert := x\<rparr>\<rparr>) = quoteTable g"
  by (intro ext) (simp add: quoteTable_def cong: if_cong)

lemma insertStep_identity [simp]:
  "insertStep (g\<lparr>dialect_supports := (dialect_supports g)\<lparr>sup_autoIncrement_identityInsert := x\<rparr>\<rparr>) this m kv st =
   insertStep g this m kv st"
  by (simp add: insertStep_def cong: if_cong)

lemma insertLoop_identity [simp]:
  "insertLoop (g\<lparr>dialect_supports := (dialect_supports g)\<lparr>sup_autoIncrement_identityInsert := x\<rparr>\<rparr>) this m h =
   insertLoop g this m h"
proof (induction h)
  case Nil
  show ?case by (rule ext) simp
next
  case (Cons kv h)
  show ?case by (rule ext) (simp add: Cons.IH)
qed

lemma tmpColumns_identity [simp]:
  "tmpColumns (g\<lparr>dialect_supports := (dialect_supports g)\<lparr>sup_autoIncrement_identityInsert := x\<rparr>\<rparr>) attrs acc =
   tmpColumns g attrs acc"
proof (induction attrs arbitrary: acc)
  case Nil
  show ?case by simp
next
  case (Cons ka rest)
  obtain k a where ka: "ka = (k, a)" by (cases ka)
  obtain tmp out where acc: "acc = (tmp, out)" by (cases acc)
  show ?case unfolding ka acc by (simp add: Cons.IH Let_def split: option.splits)
qed

lemma insertTemplates_identity [simp]:
  "insertTemplates (g\<lparr>dialect_supports := (dialect_supports g)\<lparr>sup_autoIncrement_identityInsert := x\<rparr>\<rparr>) attrs options =
   insertTemplates g attrs options"
  by (simp add: insertTemplates_def Let_def cong: if_cong split del: if_split)







subsection \<open>Order directions\<close>

lemma validateOrder_string:
  "validateOrder (JStr s) =
     (if toUpperCase s \<in> set orderDirections then Inr () else Inl (InvalidOrderDirection s))"
  by (simp add: validateOrder_def)

lemma validateOrder_literal: "validateOrder (Literal v) = Inr ()"
  by (simp add: validateOrder_def)

text \<open>
  C9. \<^verbatim>\<open>validateOrder\<close> rejects exactly the strings that, in upper case, are none of the
  eight directions, and lets every Literal pass. But \<^verbatim>\<open>getQueryOrders\<close> calls it on
  an item that begins with a model only when the element before the last is a string. The
  item \<^verbatim>\<open>[Task, fn('max', col('age')), 'SIDEWAYS']\<close> is therefore not validated: no
  error is raised and the direction reaches the ORDER BY fragment as it is, while the
  same expression and direction without the model in front are rejected.
\<close>

theorem order_direction_unvalidated:
  "validateOrderItem
     (JArr [JModel ''Task'' ''tasks'', Fn ''max'' [Col (JStr ''age'')], JStr ''SIDEWAYS'']) = Inr () \<and>
   getQueryOrders (queryGenerator sampleGeneratorTasks (Suc (Suc (Suc (Suc (Suc 0))))))
     (JArr [JArr [JModel ''Task'' ''tasks'', Fn ''max'' [Col (JStr ''age'')], JStr ''SIDEWAYS'']])
     (JModel ''User'' ''users'') False =
     Inr ([JStr ''[Tasks].max([age]) SIDEWAYS''], []) \<and>
   validateOrderItem (JArr [Fn ''max'' [Col (JStr ''age'')], JStr ''SIDEWAYS'']) =
     Inl (InvalidOrderDirection ''SIDEWAYS'') \<and>
   getQueryOrders (queryGenerator sampleGeneratorTasks (Suc (Suc (Suc (Suc (Suc 0))))))
     (JArr [JArr [Fn ''max'' [Col (JStr ''age'')], JStr ''SIDEWAYS'']])
     (JModel ''User'' ''users'') False = Inl (InvalidOrderDirection ''SIDEWAYS'')"
  by (simp add: getQueryOrders_def validateOrderItem_def validateOrder_def leadsWithModel_def
      orderDirections_def quote_def quoteIdentifiers_def quoteTable_def handleSequelizeMethod_def
      escapeOrHandle_def escape_def sampleGeneratorTasks_def sampleGenerator_def sampleEscape_def
      sampleSupports_def toUpperCase_def toUpperChar_def jsJoin_def modelRef_def jsOr_def
      Let_def)

end
